theory Spec2Isabelle
  imports Main "HOL-Library.Word"
begin

section \<open>The scalar event of YamlDotNet.Core (ScalarEvent.cpp)\<close>

subsection \<open>Managed text, native buffers and the raw scalar record\<close>

text \<open>
  A managed \<^verbatim>\<open>String^\<close> handle is a \<^typ>\<open>string option\<close>: \<^term>\<open>None\<close> is
  \<^verbatim>\<open>nullptr\<close>, and \<^verbatim>\<open>Length\<close> of a string is the length of the list. A native
  \<^verbatim>\<open>yaml_char_t*\<close> is a pointer to bytes; where only the bytes behind it are read
  (the raw record) it is the byte list or \<^term>\<open>None\<close> for \<^verbatim>\<open>NULL\<close>.
\<close>

type_synonym yaml_char_t = "8 word"

type_synonym buffer = "yaml_char_t list"

text \<open>
  The style codes and the scalar part of \<^verbatim>\<open>yaml_event_t\<close> belong to the native YAML
  library; the record has the fields that ScalarEvent.cpp reads under
  \<^verbatim>\<open>data.scalar\<close>. The library declares the length field \<^verbatim>\<open>size_t\<close>, an
  unsigned integer as wide as a pointer of the platform: it is a natural number here, and
  the narrowing to \<^verbatim>\<open>int\<close> is written out where the field is read.
\<close>

datatype yaml_scalar_style_t =
    YAML_ANY_SCALAR_STYLE
  | YAML_PLAIN_SCALAR_STYLE
  | YAML_SINGLE_QUOTED_SCALAR_STYLE
  | YAML_DOUBLE_QUOTED_SCALAR_STYLE
  | YAML_LITERAL_SCALAR_STYLE
  | YAML_FOLDED_SCALAR_STYLE

record yaml_event_t =
  scalar_anchor :: "buffer option"
  scalar_tag :: "buffer option"
  scalar_value :: "buffer option"
  scalar_length :: nat
  scalar_plain_implicit :: int
  scalar_quoted_implicit :: int
  scalar_style :: yaml_scalar_style_t

text \<open>
  Modelled from the spec: the managed enum \<^verbatim>\<open>ScalarStyle\<close> is declared in a header
  that is not among the sources; its members are those of the data model
  (Plain, SingleQuoted, DoubleQuoted, Literal, Folded, Any).
\<close>

datatype ScalarStyle = Any | Plain | SingleQuoted | DoubleQuoted | Literal | Folded

subsection \<open>The object\<close>

text \<open>
  Modelled from the spec: the base class \<^verbatim>\<open>YamlEvent\<close> is not among the sources.
  Its \<^verbatim>\<open>NativeEvent\<close> is the pointer to the raw record that a bound event was
  constructed from, and \<^verbatim>\<open>NULL\<close> (\<^term>\<open>None\<close>) for a detached event, which
  has no raw record. The raw record is read only, so the pointer is modelled by the record
  it points to.

  The other fields are those that ScalarEvent.cpp initializes; the field
  \<^verbatim>\<open>value\<close> is \<open>value_field\<close> here.
\<close>

record ScalarEvent =
  NativeEvent :: "yaml_event_t option"
  anchor :: "string option"
  tag :: "string option"
  value_field :: "string option"
  style :: ScalarStyle
  isPlainImplicit :: bool
  isQuotedImplicit :: bool

text \<open>
  The read-path constructor. The cast \<^verbatim>\<open>(ScalarStyle)\<close> between the two enums is a
  parameter, its definition being part of the absent header; the three text fields of a
  fresh managed object are \<^verbatim>\<open>nullptr\<close>.
\<close>

definition ScalarEvent_bound ::
  "(yaml_scalar_style_t \<Rightarrow> ScalarStyle) \<Rightarrow> yaml_event_t \<Rightarrow> ScalarEvent" where
  "ScalarEvent_bound cast nativeEvent =
     \<lparr>NativeEvent = Some nativeEvent, anchor = None, tag = None, value_field = None,
      style = cast (scalar_style nativeEvent),
      isPlainImplicit = (scalar_plain_implicit nativeEvent \<noteq> 0),
      isQuotedImplicit = (scalar_quoted_implicit nativeEvent \<noteq> 0)\<rparr>"

text \<open>The five write-path constructors, named by their number of arguments.\<close>

definition ScalarEvent_new1 :: "string option \<Rightarrow> ScalarEvent" where
  "ScalarEvent_new1 v =
     \<lparr>NativeEvent = None, anchor = None, tag = None, value_field = v,
      style = Plain, isPlainImplicit = True, isQuotedImplicit = True\<rparr>"

definition ScalarEvent_new2 :: "string option \<Rightarrow> string option \<Rightarrow> ScalarEvent" where
  "ScalarEvent_new2 v t =
     \<lparr>NativeEvent = None, anchor = None, tag = t, value_field = v,
      style = Plain, isPlainImplicit = True, isQuotedImplicit = True\<rparr>"

definition ScalarEvent_new3 ::
  "string option \<Rightarrow> string option \<Rightarrow> string option \<Rightarrow> ScalarEvent" where
  "ScalarEvent_new3 v t a =
     \<lparr>NativeEvent = None, anchor = a, tag = t, value_field = v,
      style = Plain, isPlainImplicit = True, isQuotedImplicit = True\<rparr>"

definition ScalarEvent_new4 ::
  "string option \<Rightarrow> string option \<Rightarrow> string option \<Rightarrow> ScalarStyle \<Rightarrow> ScalarEvent" where
  "ScalarEvent_new4 v t a st =
     \<lparr>NativeEvent = None, anchor = a, tag = t, value_field = v,
      style = st, isPlainImplicit = True, isQuotedImplicit = True\<rparr>"

definition ScalarEvent_new6 ::
  "string option \<Rightarrow> string option \<Rightarrow> string option \<Rightarrow> ScalarStyle \<Rightarrow> bool \<Rightarrow> bool
     \<Rightarrow> ScalarEvent" where
  "ScalarEvent_new6 v t a st p q =
     \<lparr>NativeEvent = None, anchor = a, tag = t, value_field = v,
      style = st, isPlainImplicit = p, isQuotedImplicit = q\<rparr>"

subsection \<open>Calls, their outcomes and the world they run in\<close>

text \<open>
  A member function runs on the object \<open>this\<close> and on what lies outside it: the calls made
  so far to \<^verbatim>\<open>StringConverter::Convert(const yaml_char_t*)\<close> (the argument of each, in
  order), the native buffers made by \<^verbatim>\<open>StringConverter::Convert(String^)\<close> (a cell is
  \<^term>\<open>None\<close> once \<^verbatim>\<open>delete[]\<close> has released it; a pointer is the index of its
  cell), the calls made so far to \<^verbatim>\<open>yaml_scalar_event_initialize\<close> (the
  arguments, and the buffers as they were at the call), and the wire records written so
  far into record slots (the address of the slot and the record, in order).
\<close>

record init_args =
  arg_event :: nat
  arg_anchor :: "nat option"
  arg_tag :: "nat option"
  arg_value :: "nat option"
  arg_length :: int
  arg_plain_implicit :: int
  arg_quoted_implicit :: int
  arg_style :: yaml_scalar_style_t

record world =
  this :: ScalarEvent
  decode_log :: "buffer option list"
  heap :: "buffer option list"
  init_log :: "(buffer option list \<times> init_args) list"
  slot_log :: "(nat \<times> yaml_event_t) list"

datatype exn = YamlException | NullReferenceException | FormatException

type_synonym 'a outcome = "(exn + 'a) \<times> world"

definition return :: "'a \<Rightarrow> world \<Rightarrow> 'a outcome" where
  "return x w = (Inr x, w)"

definition throw :: "exn \<Rightarrow> world \<Rightarrow> 'a outcome" where
  "throw x w = (Inl x, w)"

text \<open>Sequencing: an exception ends the enclosing call with the world as it is then.\<close>

definition andThen ::
  "(world \<Rightarrow> 'a outcome) \<Rightarrow> ('a \<Rightarrow> world \<Rightarrow> 'b outcome) \<Rightarrow> world \<Rightarrow> 'b outcome" where
  "andThen m f w = (case m w of (Inl x, w') \<Rightarrow> (Inl x, w') | (Inr a, w') \<Rightarrow> f a w')"

subsection \<open>The accessors\<close>

text \<open>
  \<^verbatim>\<open>StringConverter::Convert(const yaml_char_t*)\<close> is not among the sources; the
  accessors take it as the parameter \<open>Convert\<close>.
\<close>

definition Anchor_get :: "(buffer option \<Rightarrow> string option) \<Rightarrow> world \<Rightarrow> string option outcome" where
  "Anchor_get Convert w =
     (case (anchor (this w), NativeEvent (this w)) of
        (None, Some n) \<Rightarrow>
          (let a = Convert (scalar_anchor n)
           in (Inr a, w\<lparr>this := (this w)\<lparr>anchor := a\<rparr>,
                        decode_log := decode_log w @ [scalar_anchor n]\<rparr>))
      | _ \<Rightarrow> (Inr (anchor (this w)), w))"

definition Tag_get :: "(buffer option \<Rightarrow> string option) \<Rightarrow> world \<Rightarrow> string option outcome" where
  "Tag_get Convert w =
     (case (tag (this w), NativeEvent (this w)) of
        (None, Some n) \<Rightarrow>
          (let t = Convert (scalar_tag n)
           in (Inr t, w\<lparr>this := (this w)\<lparr>tag := t\<rparr>,
                        decode_log := decode_log w @ [scalar_tag n]\<rparr>))
      | _ \<Rightarrow> (Inr (tag (this w)), w))"

definition Value_get :: "(buffer option \<Rightarrow> string option) \<Rightarrow> world \<Rightarrow> string option outcome" where
  "Value_get Convert w =
     (case (value_field (this w), NativeEvent (this w)) of
        (None, Some n) \<Rightarrow>
          (let v = Convert (scalar_value n)
           in (Inr v, w\<lparr>this := (this w)\<lparr>value_field := v\<rparr>,
                        decode_log := decode_log w @ [scalar_value n]\<rparr>))
      | _ \<Rightarrow> (Inr (value_field (this w)), w))"

text \<open>
  The conversion from \<^verbatim>\<open>size_t\<close> to \<^verbatim>\<open>int\<close> that the \<^verbatim>\<open>return\<close> of
  \<^verbatim>\<open>Length::get\<close> applies to the length field: the low 32 bits, read as a signed
  number. A field of \<open>2 ^ 31\<close> or more does not come back as it is.
\<close>

definition int_of_size_t :: "nat \<Rightarrow> int" where
  "int_of_size_t n = sint (word_of_nat n :: 32 word)"

text \<open>\<^verbatim>\<open>s->Length\<close> on a handle: a null handle raises.\<close>

definition String_Length :: "string option \<Rightarrow> world \<Rightarrow> int outcome" where
  "String_Length s w =
     (case s of None \<Rightarrow> (Inl NullReferenceException, w) | Some cs \<Rightarrow> (Inr (int (length cs)), w))"

definition Length_get :: "world \<Rightarrow> int outcome" where
  "Length_get w =
     (case NativeEvent (this w) of
        Some n \<Rightarrow> (Inr (int_of_size_t (scalar_length n)), w)
      | None \<Rightarrow> String_Length (value_field (this w)) w)"

definition IsPlainImplicit_get :: "world \<Rightarrow> bool outcome" where
  "IsPlainImplicit_get w = (Inr (isPlainImplicit (this w)), w)"

definition IsQuotedImplicit_get :: "world \<Rightarrow> bool outcome" where
  "IsQuotedImplicit_get w = (Inr (isQuotedImplicit (this w)), w)"

definition Style_get :: "world \<Rightarrow> ScalarStyle outcome" where
  "Style_get w = (Inr (style (this w)), w)"

subsection \<open>Textual rendering\<close>

text \<open>
  The arguments of \<^verbatim>\<open>String::Format\<close> are objects: a string handle, an
  \<^verbatim>\<open>int\<close> or a \<^verbatim>\<open>ScalarStyle\<close>. Under the invariant culture an
  \<^verbatim>\<open>int\<close> is written in decimal with a leading minus sign when negative, an enum
  member by its name, and a null argument as the empty string.
\<close>

datatype object = StringObject "string option" | Int32Object int | ScalarStyleObject ScalarStyle

definition digit_char :: "nat \<Rightarrow> char" where
  "digit_char d = ''0123456789'' ! (d mod 10)"

fun digits :: "nat \<Rightarrow> string" where
  "digits n = (if n < 10 then [digit_char n] else digits (n div 10) @ [digit_char (n mod 10)])"

declare digits.simps [simp del]

definition Int32_ToString :: "int \<Rightarrow> string" where
  "Int32_ToString i = (if i < 0 then CHR ''-'' # digits (nat (- i)) else digits (nat i))"

fun ScalarStyle_name :: "ScalarStyle \<Rightarrow> string" where
  "ScalarStyle_name Any = ''Any''"
| "ScalarStyle_name Plain = ''Plain''"
| "ScalarStyle_name SingleQuoted = ''SingleQuoted''"
| "ScalarStyle_name DoubleQuoted = ''DoubleQuoted''"
| "ScalarStyle_name Literal = ''Literal''"
| "ScalarStyle_name Folded = ''Folded''"

fun object_text :: "object \<Rightarrow> string" where
  "object_text (StringObject None) = []"
| "object_text (StringObject (Some s)) = s"
| "object_text (Int32Object i) = Int32_ToString i"
| "object_text (ScalarStyleObject st) = ScalarStyle_name st"

text \<open>
  The composite format string is read left to right. Outside an item a character is
  copied; \<open>{\<close> opens an item, whose decimal index runs up to the closing \<open>}\<close> and
  selects the argument written in its place. An index that is not a number or not below
  the number of arguments, an item left open and a stray \<open>}\<close> are a
  \<^verbatim>\<open>FormatException\<close> (\<^term>\<open>None\<close>). The escapes \<open>{{\<close> and \<open>}}\<close> and the
  alignment and format parts of an item do not occur in the format string of
  \<^verbatim>\<open>ToString\<close> and are not covered.
\<close>

fun position :: "char \<Rightarrow> string \<Rightarrow> nat option" where
  "position c [] = None"
| "position c (d # ds) = (if c = d then Some 0 else map_option Suc (position c ds))"

definition digit_of :: "char \<Rightarrow> nat option" where
  "digit_of c = position c ''0123456789''"

fun item_index_from :: "nat \<Rightarrow> string \<Rightarrow> nat option" where
  "item_index_from acc [] = Some acc"
| "item_index_from acc (c # cs) =
     (case digit_of c of None \<Rightarrow> None | Some d \<Rightarrow> item_index_from (10 * acc + d) cs)"

definition item_index :: "string \<Rightarrow> nat option" where
  "item_index ds = (if ds = [] then None else item_index_from 0 ds)"

fun Format_scan :: "string \<Rightarrow> object list \<Rightarrow> string option \<Rightarrow> string option" where
  "Format_scan [] args None = Some []"
| "Format_scan [] args (Some ds) = None"
| "Format_scan (c # cs) args None =
     (if c = CHR ''{'' then Format_scan cs args (Some [])
      else if c = CHR ''}'' then None
      else map_option ((#) c) (Format_scan cs args None))"
| "Format_scan (c # cs) args (Some ds) =
     (if c = CHR ''}'' then
        (case item_index ds of
           None \<Rightarrow> None
         | Some i \<Rightarrow>
             if i < length args
             then map_option ((@) (object_text (args ! i))) (Format_scan cs args None)
             else None)
      else Format_scan cs args (Some (ds @ [c])))"

declare Format_scan.simps [simp del]

definition String_Format :: "string \<Rightarrow> object list \<Rightarrow> world \<Rightarrow> string outcome" where
  "String_Format fmt args w =
     (case Format_scan fmt args None of
        None \<Rightarrow> (Inl FormatException, w)
      | Some s \<Rightarrow> (Inr s, w))"

text \<open>
  \<^verbatim>\<open>ToString\<close>: the arguments are evaluated in the order written, then formatted.
  (The language leaves the order open. The reads of Anchor, Tag and Value touch a cache
  field each and \<^verbatim>\<open>Length\<close> alone can raise, which it does only on a detached
  event, where no read changes anything: the result and the object are the same in every
  order, and only the order of the entries of \<open>decode_log\<close> is that of this one.)
  \<^verbatim>\<open>GetType()->Name\<close> of a \<^verbatim>\<open>ScalarEvent\<close> is its class name.
\<close>

definition ToString :: "(buffer option \<Rightarrow> string option) \<Rightarrow> world \<Rightarrow> string outcome" where
  "ToString Convert =
     andThen (Anchor_get Convert) (\<lambda>a.
     andThen (Tag_get Convert) (\<lambda>t.
     andThen (Value_get Convert) (\<lambda>v.
     andThen Length_get (\<lambda>n.
     andThen IsPlainImplicit_get (\<lambda>p1.
     andThen IsPlainImplicit_get (\<lambda>p2.
     andThen Style_get (\<lambda>st.
       String_Format ''{0} {1} {2} {3} {4} {5} {6} {7}''
         [StringObject (Some ''ScalarEvent''),
          StringObject a,
          StringObject t,
          StringObject v,
          Int32Object n,
          StringObject (Some (if p1 then ''plain_implicit'' else ''plain_explicit'')),
          StringObject (Some (if p2 then ''quoted_implicit'' else ''quoted_explicit'')),
          ScalarStyleObject st])))))))"

subsection \<open>Serialization to the wire record\<close>

text \<open>
  \<^verbatim>\<open>StringConverter::Convert(String^)\<close> is not among the sources. Its encoding is the
  parameter \<open>encode\<close>, which gives the bytes of the new buffer or \<^term>\<open>None\<close> when
  \<^verbatim>\<open>NULL\<close> is returned and nothing is allocated; a new buffer takes the next cell.
\<close>

definition Convert_new ::
  "(string option \<Rightarrow> buffer option) \<Rightarrow> string option \<Rightarrow> world \<Rightarrow> nat option outcome" where
  "Convert_new encode s w =
     (case encode s of
        None \<Rightarrow> (Inr None, w)
      | Some bs \<Rightarrow> (Inr (Some (length (heap w))), w\<lparr>heap := heap w @ [Some bs]\<rparr>))"

text \<open>\<^verbatim>\<open>if(p != NULL) delete[] p;\<close>\<close>

definition delete_array :: "nat option \<Rightarrow> world \<Rightarrow> unit outcome" where
  "delete_array p w =
     (case p of None \<Rightarrow> (Inr (), w) | Some i \<Rightarrow> (Inr (), w\<lparr>heap := (heap w)[i := None]\<rparr>))"

text \<open>
  \<^verbatim>\<open>yaml_scalar_event_initialize\<close> belongs to the native library and is the parameter
  \<open>initialize\<close>: a function of the buffers and of the arguments that gives the result
  code and the wire record that the primitive writes into the record slot, \<^term>\<open>None\<close>
  when it leaves the slot as it is. The slot is named by its address. The call and the
  record written are recorded.

  In \<^verbatim>\<open>CreateEvent\<close> the three encodings are statements of their own, in this
  order. Of the arguments of the call only \<^verbatim>\<open>Value->Length\<close> has an effect (the
  second read of Value) or can raise (on a null handle), so the order in which the
  arguments are evaluated makes no difference.
\<close>

definition slot_write :: "nat \<Rightarrow> yaml_event_t option \<Rightarrow> (nat \<times> yaml_event_t) list" where
  "slot_write slot r = (case r of None \<Rightarrow> [] | Some e \<Rightarrow> [(slot, e)])"

definition call_initialize ::
  "(buffer option list \<Rightarrow> init_args \<Rightarrow> int \<times> yaml_event_t option) \<Rightarrow> init_args \<Rightarrow> world
     \<Rightarrow> int outcome" where
  "call_initialize initialize args w =
     (Inr (fst (initialize (heap w) args)),
      w\<lparr>init_log := init_log w @ [(heap w, args)],
        slot_log := slot_log w
          @ slot_write (arg_event args) (snd (initialize (heap w) args))\<rparr>)"

definition CreateEvent ::
  "(buffer option \<Rightarrow> string option) \<Rightarrow> (string option \<Rightarrow> buffer option)
     \<Rightarrow> (buffer option list \<Rightarrow> init_args \<Rightarrow> int \<times> yaml_event_t option) \<Rightarrow> nat \<Rightarrow> world
       \<Rightarrow> unit outcome" where
  "CreateEvent Convert encode initialize nativeEvent =
     andThen (Anchor_get Convert) (\<lambda>a.
     andThen (Convert_new encode a) (\<lambda>anchorBuffer.
     andThen (Tag_get Convert) (\<lambda>t.
     andThen (Convert_new encode t) (\<lambda>tagBuffer.
     andThen (Value_get Convert) (\<lambda>v.
     andThen (Convert_new encode v) (\<lambda>valueBuffer.
     andThen (Value_get Convert) (\<lambda>v'.
     andThen (String_Length v') (\<lambda>len.
     andThen IsPlainImplicit_get (\<lambda>p.
     andThen IsQuotedImplicit_get (\<lambda>q.
     andThen (call_initialize initialize
                \<lparr>arg_event = nativeEvent, arg_anchor = anchorBuffer, arg_tag = tagBuffer,
                 arg_value = valueBuffer, arg_length = len,
                 arg_plain_implicit = (if p then 1 else 0),
                 arg_quoted_implicit = (if q then 1 else 0),
                 arg_style = YAML_ANY_SCALAR_STYLE\<rparr>) (\<lambda>result.
     andThen (delete_array valueBuffer) (\<lambda>_.
     andThen (delete_array tagBuffer) (\<lambda>_.
     andThen (delete_array anchorBuffer) (\<lambda>_.
       if result \<noteq> 1 then throw YamlException else return ()))))))))))))))"

subsection \<open>Clients of the object\<close>

text \<open>
  A client holds the object and calls its members one after another, whatever each call
  returns or raises; \<open>after\<close> is the world a call leaves behind and \<open>history\<close> the
  world after a list of calls. \<open>twice\<close> is the second of two reads in succession.
\<close>

datatype member =
    Read_Anchor | Read_Tag | Read_Value | Read_Length
  | Read_IsPlainImplicit | Read_IsQuotedImplicit | Read_Style
  | Call_ToString | Call_CreateEvent nat

fun after ::
  "(buffer option \<Rightarrow> string option) \<Rightarrow> (string option \<Rightarrow> buffer option)
     \<Rightarrow> (buffer option list \<Rightarrow> init_args \<Rightarrow> int \<times> yaml_event_t option) \<Rightarrow> member \<Rightarrow> world
     \<Rightarrow> world" where
  "after C E I Read_Anchor w = snd (Anchor_get C w)"
| "after C E I Read_Tag w = snd (Tag_get C w)"
| "after C E I Read_Value w = snd (Value_get C w)"
| "after C E I Read_Length w = snd (Length_get w)"
| "after C E I Read_IsPlainImplicit w = snd (IsPlainImplicit_get w)"
| "after C E I Read_IsQuotedImplicit w = snd (IsQuotedImplicit_get w)"
| "after C E I Read_Style w = snd (Style_get w)"
| "after C E I Call_ToString w = snd (ToString C w)"
| "after C E I (Call_CreateEvent nativeEvent) w = snd (CreateEvent C E I nativeEvent w)"

definition history ::
  "(buffer option \<Rightarrow> string option) \<Rightarrow> (string option \<Rightarrow> buffer option)
     \<Rightarrow> (buffer option list \<Rightarrow> init_args \<Rightarrow> int \<times> yaml_event_t option) \<Rightarrow> member list
     \<Rightarrow> world \<Rightarrow> world" where
  "history C E I ms w = fold (after C E I) ms w"

definition twice :: "(world \<Rightarrow> 'a outcome) \<Rightarrow> world \<Rightarrow> 'a outcome" where
  "twice get w = get (snd (get w))"

subsection \<open>Worlds and concrete collaborators\<close>

text \<open>An object in a world where nothing has happened yet.\<close>

definition fresh :: "ScalarEvent \<Rightarrow> world" where
  "fresh e = \<lparr>this = e, decode_log = [], heap = [], init_log = [], slot_log = []\<rparr>"


text \<open>The bytes behind a pointer (\<^term>\<open>None\<close> behind \<^verbatim>\<open>NULL\<close> and behind a released
  or unknown address).\<close>

definition bytes_at :: "buffer option list \<Rightarrow> nat option \<Rightarrow> buffer option" where
  "bytes_at h p = (case p of None \<Rightarrow> None | Some i \<Rightarrow> if i < length h then h ! i else None)"

text \<open>
  Modelled from the spec: \<^verbatim>\<open>StringConverter::Convert(const yaml_char_t*)\<close>, the
  decoding half of the text buffer codec, which is not among the sources. An absent
  buffer decodes to an absent text; the bytes are decoded one by one, which is their
  decoding as long as the text is ASCII.
\<close>

definition StringConverter_decode :: "buffer option \<Rightarrow> string option" where
  "StringConverter_decode p = map_option (map (\<lambda>b. char_of (unat b))) p"

text \<open>
  Modelled from the spec: \<^verbatim>\<open>StringConverter::Convert(String^)\<close>, the encoding half
  of the codec, which is not among the sources: newly allocated bytes, or null for an
  absent or empty text.
\<close>

definition StringConverter_encode :: "string option \<Rightarrow> buffer option" where
  "StringConverter_encode s =
     (case s of
        None \<Rightarrow> None
      | Some cs \<Rightarrow> if cs = [] then None else Some (map (\<lambda>c. of_nat (of_char c)) cs))"

text \<open>
  Modelled from the spec: the cast from the style code of the raw record to
  \<^verbatim>\<open>ScalarStyle\<close> (``mapped from the record's style code''), member by member.
\<close>

fun ScalarStyle_cast :: "yaml_scalar_style_t \<Rightarrow> ScalarStyle" where
  "ScalarStyle_cast YAML_ANY_SCALAR_STYLE = Any"
| "ScalarStyle_cast YAML_PLAIN_SCALAR_STYLE = Plain"
| "ScalarStyle_cast YAML_SINGLE_QUOTED_SCALAR_STYLE = SingleQuoted"
| "ScalarStyle_cast YAML_DOUBLE_QUOTED_SCALAR_STYLE = DoubleQuoted"
| "ScalarStyle_cast YAML_LITERAL_SCALAR_STYLE = Literal"
| "ScalarStyle_cast YAML_FOLDED_SCALAR_STYLE = Folded"

text \<open>
  The raw record of the scalar \<^verbatim>\<open>!!str hello\<close>: no anchor, tag \<^verbatim>\<open>!!str\<close>, value
  \<^verbatim>\<open>hello\<close> of length 5, plain style, plain-implicit set, quoted-implicit clear.
\<close>

definition hello_record :: yaml_event_t where
  "hello_record =
     \<lparr>scalar_anchor = None,
      scalar_tag = Some [0x21, 0x21, 0x73, 0x74, 0x72],
      scalar_value = Some [0x68, 0x65, 0x6C, 0x6C, 0x6F],
      scalar_length = 5, scalar_plain_implicit = 1, scalar_quoted_implicit = 0,
      scalar_style = YAML_PLAIN_SCALAR_STYLE\<rparr>"

text \<open>
  The raw record of the plain scalar \<^verbatim>\<open>caf\<close> followed by e-acute: five bytes of
  UTF-8 for four characters, with the length field 5. \<open>cafe_decode\<close> is a decoder stub
  that knows these five bytes and decodes everything else as \<open>StringConverter_decode\<close>.
\<close>

definition cafe_record :: yaml_event_t where
  "cafe_record =
     \<lparr>scalar_anchor = None, scalar_tag = None,
      scalar_value = Some [0x63, 0x61, 0x66, 0xC3, 0xA9],
      scalar_length = 5, scalar_plain_implicit = 1, scalar_quoted_implicit = 1,
      scalar_style = YAML_PLAIN_SCALAR_STYLE\<rparr>"

definition cafe_decode :: "buffer option \<Rightarrow> string option" where
  "cafe_decode p =
     (if p = Some [0x63, 0x61, 0x66, 0xC3, 0xA9]
      then Some [CHR ''c'', CHR ''a'', CHR ''f'', CHR 0xE9]
      else StringConverter_decode p)"

text \<open>A detached event built with all six arguments.\<close>

definition full_event :: ScalarEvent where
  "full_event =
     ScalarEvent_new6 (Some ''x'') (Some ''!!str'') (Some ''a1'') DoubleQuoted False True"

text \<open>
  A raw record with an anchor, and one whose length field is \<open>2 ^ 31\<close>.
\<close>

definition anchored_record :: yaml_event_t where
  "anchored_record = hello_record\<lparr>scalar_anchor := Some [0x61, 0x31]\<rparr>"

definition huge_record :: yaml_event_t where
  "huge_record = hello_record\<lparr>scalar_length := 2147483648\<rparr>"

text \<open>
  An initializer that accepts every call, and one that rejects every call. The first
  returns 1 and writes the record made of copies of the three buffers and of the other
  arguments; the second returns 0 and leaves the slot as it is.
\<close>

definition initialize_ok :: "buffer option list \<Rightarrow> init_args \<Rightarrow> int \<times> yaml_event_t option" where
  "initialize_ok h args =
     (1, Some \<lparr>scalar_anchor = bytes_at h (arg_anchor args),
               scalar_tag = bytes_at h (arg_tag args),
               scalar_value = bytes_at h (arg_value args),
               scalar_length = nat (arg_length args),
               scalar_plain_implicit = arg_plain_implicit args,
               scalar_quoted_implicit = arg_quoted_implicit args,
               scalar_style = arg_style args\<rparr>)"


subsection \<open>Closed forms of the steps\<close>

text \<open>
  What a lazy accessor returns and which decode it asks for, as functions of its cache
  field and of the raw pointer it would decode (\<^term>\<open>None\<close> when the event is
  detached); the cell and the pointer that an encoding gives; the buffers after a guarded
  \<^verbatim>\<open>delete[]\<close>.
\<close>

definition lazy_text ::
  "(buffer option \<Rightarrow> string option) \<Rightarrow> string option \<Rightarrow> buffer option option \<Rightarrow> string option" where
  "lazy_text Convert cache raw = (case (cache, raw) of (None, Some p) \<Rightarrow> Convert p | _ \<Rightarrow> cache)"

definition lazy_calls :: "string option \<Rightarrow> buffer option option \<Rightarrow> buffer option list" where
  "lazy_calls cache raw = (case (cache, raw) of (None, Some p) \<Rightarrow> [p] | _ \<Rightarrow> [])"

definition new_pointer :: "buffer option \<Rightarrow> nat \<Rightarrow> nat option" where
  "new_pointer b n = map_option (\<lambda>_. n) b"

definition new_cells :: "buffer option \<Rightarrow> buffer option list" where
  "new_cells b = (case b of None \<Rightarrow> [] | Some bs \<Rightarrow> [Some bs])"

definition release :: "nat option \<Rightarrow> buffer option list \<Rightarrow> buffer option list" where
  "release p h = (case p of None \<Rightarrow> h | Some i \<Rightarrow> h[i := None])"

subsection \<open>What each accessor does, case by case\<close>

lemma Anchor_get_detached:
  "NativeEvent (this w) = None \<Longrightarrow> Anchor_get Convert w = (Inr (anchor (this w)), w)"
  by (simp add: Anchor_get_def split: option.splits)

lemma Anchor_get_cached:
  "anchor (this w) = Some a \<Longrightarrow> Anchor_get Convert w = (Inr (Some a), w)"
  by (simp add: Anchor_get_def)

lemma Anchor_get_decode:
  "anchor (this w) = None \<Longrightarrow> NativeEvent (this w) = Some n \<Longrightarrow>
   Anchor_get Convert w =
     (Inr (Convert (scalar_anchor n)),
      w\<lparr>this := (this w)\<lparr>anchor := Convert (scalar_anchor n)\<rparr>,
        decode_log := decode_log w @ [scalar_anchor n]\<rparr>)"
  by (simp add: Anchor_get_def Let_def)

lemma Tag_get_detached:
  "NativeEvent (this w) = None \<Longrightarrow> Tag_get Convert w = (Inr (tag (this w)), w)"
  by (simp add: Tag_get_def split: option.splits)

lemma Tag_get_cached:
  "tag (this w) = Some t \<Longrightarrow> Tag_get Convert w = (Inr (Some t), w)"
  by (simp add: Tag_get_def)

lemma Tag_get_decode:
  "tag (this w) = None \<Longrightarrow> NativeEvent (this w) = Some n \<Longrightarrow>
   Tag_get Convert w =
     (Inr (Convert (scalar_tag n)),
      w\<lparr>this := (this w)\<lparr>tag := Convert (scalar_tag n)\<rparr>,
        decode_log := decode_log w @ [scalar_tag n]\<rparr>)"
  by (simp add: Tag_get_def Let_def)

lemma Value_get_detached:
  "NativeEvent (this w) = None \<Longrightarrow> Value_get Convert w = (Inr (value_field (this w)), w)"
  by (simp add: Value_get_def split: option.splits)

lemma Value_get_cached:
  "value_field (this w) = Some v \<Longrightarrow> Value_get Convert w = (Inr (Some v), w)"
  by (simp add: Value_get_def)

lemma Value_get_decode:
  "value_field (this w) = None \<Longrightarrow> NativeEvent (this w) = Some n \<Longrightarrow>
   Value_get Convert w =
     (Inr (Convert (scalar_value n)),
      w\<lparr>this := (this w)\<lparr>value_field := Convert (scalar_value n)\<rparr>,
        decode_log := decode_log w @ [scalar_value n]\<rparr>)"
  by (simp add: Value_get_def Let_def)

lemma Length_get_bound:
  "NativeEvent (this w) = Some n \<Longrightarrow>
   Length_get w = (Inr (int_of_size_t (scalar_length n)), w)"
  by (simp add: Length_get_def)

lemma Length_get_detached:
  "NativeEvent (this w) = None \<Longrightarrow> Length_get w = String_Length (value_field (this w)) w"
  by (simp add: Length_get_def)

lemma int_of_size_t_in_range: "n < 2 ^ 31 \<Longrightarrow> int_of_size_t n = int n"
proof -
  assume "n < 2 ^ 31"
  then have "int n < 2 ^ 31"
    by (metis of_nat_less_iff of_nat_numeral of_nat_power)
  then have "signed_take_bit 31 (int n) = int n"
    by (intro signed_take_bit_int_eq_self) simp_all
  then show ?thesis
    by (simp add: int_of_size_t_def signed_of_nat)
qed

lemma this_fresh: "this (fresh e) = e"
  by (simp add: fresh_def)

subsection \<open>The steps in closed form\<close>

lemma Anchor_get_eq:
  "Anchor_get Convert w =
     (Inr (lazy_text Convert (anchor (this w)) (map_option scalar_anchor (NativeEvent (this w)))),
      w\<lparr>this := (this w)\<lparr>anchor := lazy_text Convert (anchor (this w)) (map_option scalar_anchor (NativeEvent (this w)))\<rparr>,
        decode_log := decode_log w @ lazy_calls (anchor (this w)) (map_option scalar_anchor (NativeEvent (this w)))\<rparr>)"
  by (simp add: Anchor_get_def lazy_text_def lazy_calls_def Let_def split: option.splits)

lemma Tag_get_eq:
  "Tag_get Convert w =
     (Inr (lazy_text Convert (tag (this w)) (map_option scalar_tag (NativeEvent (this w)))),
      w\<lparr>this := (this w)\<lparr>tag := lazy_text Convert (tag (this w)) (map_option scalar_tag (NativeEvent (this w)))\<rparr>,
        decode_log := decode_log w @ lazy_calls (tag (this w)) (map_option scalar_tag (NativeEvent (this w)))\<rparr>)"
  by (simp add: Tag_get_def lazy_text_def lazy_calls_def Let_def split: option.splits)

lemma Value_get_eq:
  "Value_get Convert w =
     (Inr (lazy_text Convert (value_field (this w)) (map_option scalar_value (NativeEvent (this w)))),
      w\<lparr>this := (this w)\<lparr>value_field := lazy_text Convert (value_field (this w)) (map_option scalar_value (NativeEvent (this w)))\<rparr>,
        decode_log := decode_log w @ lazy_calls (value_field (this w)) (map_option scalar_value (NativeEvent (this w)))\<rparr>)"
  by (simp add: Value_get_def lazy_text_def lazy_calls_def Let_def split: option.splits)

lemma lazy_text_idem: "lazy_text C (lazy_text C c r) r = lazy_text C c r"
  by (simp add: lazy_text_def split: option.splits)

lemma lazy_calls_Some: "lazy_calls (Some s) r = []"
  by (simp add: lazy_calls_def)

lemma Convert_new_eq:
  "Convert_new E s w = (Inr (new_pointer (E s) (length (heap w))), w\<lparr>heap := heap w @ new_cells (E s)\<rparr>)"
  by (simp add: Convert_new_def new_pointer_def new_cells_def split: option.splits)

lemma delete_array_eq: "delete_array p w = (Inr (), w\<lparr>heap := release p (heap w)\<rparr>)"
  by (simp add: delete_array_def release_def split: option.splits)

lemma andThen_step: "andThen m f w = (case fst (m w) of Inl x \<Rightarrow> (Inl x, snd (m w)) | Inr a \<Rightarrow> f a (snd (m w)))"
  by (simp add: andThen_def split: prod.splits sum.splits)

lemmas run_simps = andThen_step Anchor_get_eq Tag_get_eq Value_get_eq Convert_new_eq
  delete_array_eq IsPlainImplicit_get_def IsQuotedImplicit_get_def Style_get_def call_initialize_def
  throw_def return_def


lemma lazy_text_Some: "lazy_text C (Some s) r = Some s"
  by (simp add: lazy_text_def)

lemma CreateEvent_Some:
  assumes V: "lazy_text C (value_field (this w)) (map_option scalar_value (NativeEvent (this w))) = Some v"
    and a: "a = lazy_text C (anchor (this w)) (map_option scalar_anchor (NativeEvent (this w)))"
    and t: "t = lazy_text C (tag (this w)) (map_option scalar_tag (NativeEvent (this w)))"
    and pa: "pa = new_pointer (E a) (length (heap w))"
    and pt: "pt = new_pointer (E t) (length (heap w) + length (new_cells (E a)))"
    and pv: "pv = new_pointer (E (Some v))
                    (length (heap w) + length (new_cells (E a)) + length (new_cells (E t)))"
    and h: "h = heap w @ new_cells (E a) @ new_cells (E t) @ new_cells (E (Some v))"
    and args: "args = \<lparr>arg_event = ev, arg_anchor = pa, arg_tag = pt, arg_value = pv,
                        arg_length = int (length v),
                        arg_plain_implicit = (if isPlainImplicit (this w) then 1 else 0),
                        arg_quoted_implicit = (if isQuotedImplicit (this w) then 1 else 0),
                        arg_style = YAML_ANY_SCALAR_STYLE\<rparr>"
  shows "CreateEvent C E I ev w =
           (if fst (I h args) \<noteq> 1 then Inl YamlException else Inr (),
            w\<lparr>this := (this w)\<lparr>anchor := a, tag := t, value_field := Some v\<rparr>,
              decode_log := decode_log w
                 @ lazy_calls (anchor (this w)) (map_option scalar_anchor (NativeEvent (this w)))
                 @ lazy_calls (tag (this w)) (map_option scalar_tag (NativeEvent (this w)))
                 @ lazy_calls (value_field (this w)) (map_option scalar_value (NativeEvent (this w))),
              heap := release pa (release pt (release pv h)),
              init_log := init_log w @ [(h, args)],
              slot_log := slot_log w @ slot_write ev (snd (I h args))\<rparr>)"
  using V
  by (simp add: a t pa pt pv h args CreateEvent_def run_simps String_Length_def
      lazy_text_Some lazy_calls_Some add.assoc)

lemma CreateEvent_None:
  assumes V: "lazy_text C (value_field (this w)) (map_option scalar_value (NativeEvent (this w))) = None"
    and a: "a = lazy_text C (anchor (this w)) (map_option scalar_anchor (NativeEvent (this w)))"
    and t: "t = lazy_text C (tag (this w)) (map_option scalar_tag (NativeEvent (this w)))"
  shows "CreateEvent C E I ev w =
           (Inl NullReferenceException,
            w\<lparr>this := (this w)\<lparr>anchor := a, tag := t, value_field := None\<rparr>,
              decode_log := decode_log w
                 @ lazy_calls (anchor (this w)) (map_option scalar_anchor (NativeEvent (this w)))
                 @ lazy_calls (tag (this w)) (map_option scalar_tag (NativeEvent (this w)))
                 @ lazy_calls (value_field (this w)) (map_option scalar_value (NativeEvent (this w)))
                 @ lazy_calls None (map_option scalar_value (NativeEvent (this w))),
              heap := heap w @ new_cells (E a) @ new_cells (E t) @ new_cells (E None)\<rparr>)"
proof -
  have c: "value_field (this w) = None"
    using V by (cases "value_field (this w)") (simp_all add: lazy_text_Some)
  show ?thesis
    using V by (simp add: c a t CreateEvent_def run_simps String_Length_def)
qed


lemma bytes_at_new:
  "bytes_at (h0 @ new_cells x @ rest) (new_pointer x (length h0)) = x"
  by (cases x) (simp_all add: bytes_at_def new_pointer_def new_cells_def)

subsection \<open>The rendering in closed form\<close>

lemma lazy_text_detached: "lazy_text C c None = c"
  by (simp add: lazy_text_def split: option.splits)

lemma lazy_calls_detached: "lazy_calls c None = []"
  by (simp add: lazy_calls_def split: option.splits)

lemma lazy_text_None_bound: "lazy_text C None (Some p) = C p"
  by (simp add: lazy_text_def)

lemma lazy_calls_None_bound: "lazy_calls None (Some p) = [p]"
  by (simp add: lazy_calls_def)


lemma Format_eight:
  "Format_scan ''{0} {1} {2} {3} {4} {5} {6} {7}'' [x0, x1, x2, x3, x4, x5, x6, x7] None =
     Some (object_text x0 @ '' '' @ object_text x1 @ '' '' @ object_text x2 @ '' '' @ object_text x3
           @ '' '' @ object_text x4 @ '' '' @ object_text x5 @ '' '' @ object_text x6 @ '' ''
           @ object_text x7)"
  by (simp add: Format_scan.simps item_index_def digit_of_def)

lemma ToString_world:
  "snd (ToString C w) =
     w\<lparr>this := (this w)\<lparr>anchor := lazy_text C (anchor (this w)) (map_option scalar_anchor (NativeEvent (this w))),
                         tag := lazy_text C (tag (this w)) (map_option scalar_tag (NativeEvent (this w))),
                         value_field := lazy_text C (value_field (this w)) (map_option scalar_value (NativeEvent (this w)))\<rparr>,
       decode_log := decode_log w
          @ lazy_calls (anchor (this w)) (map_option scalar_anchor (NativeEvent (this w)))
          @ lazy_calls (tag (this w)) (map_option scalar_tag (NativeEvent (this w)))
          @ lazy_calls (value_field (this w)) (map_option scalar_value (NativeEvent (this w)))\<rparr>"
  by (cases "NativeEvent (this w)"; cases "value_field (this w)")
     (simp_all add: ToString_def run_simps Length_get_def String_Length_def String_Format_def
        Format_eight lazy_text_detached lazy_text_Some)

lemma ToString_result:
  assumes "fst (Length_get w) = Inr n"
  shows "fst (ToString C w) =
     Inr (''ScalarEvent '' 
          @ object_text (StringObject (lazy_text C (anchor (this w)) (map_option scalar_anchor (NativeEvent (this w))))) @ '' ''
          @ object_text (StringObject (lazy_text C (tag (this w)) (map_option scalar_tag (NativeEvent (this w))))) @ '' ''
          @ object_text (StringObject (lazy_text C (value_field (this w)) (map_option scalar_value (NativeEvent (this w))))) @ '' ''
          @ Int32_ToString n @ '' ''
          @ (if isPlainImplicit (this w) then ''plain_implicit'' else ''plain_explicit'') @ '' ''
          @ (if isPlainImplicit (this w) then ''quoted_implicit'' else ''quoted_explicit'') @ '' ''
          @ ScalarStyle_name (style (this w)))"
  using assms
  by (cases "NativeEvent (this w)"; cases "value_field (this w)")
     (simp_all add: ToString_def run_simps Length_get_def String_Length_def String_Format_def
        Format_eight lazy_text_detached lazy_text_Some)

lemma ToString_raises:
  assumes "fst (Length_get w) = Inl x"
  shows "fst (ToString C w) = Inl x"
  using assms
  by (cases "NativeEvent (this w)"; cases "value_field (this w)")
     (simp_all add: ToString_def run_simps Length_get_def String_Length_def String_Format_def
        Format_eight lazy_text_detached lazy_text_Some)

subsection \<open>What a client's calls leave unchanged\<close>

lemma Length_get_world: "snd (Length_get w) = w"
  by (simp add: Length_get_def String_Length_def split: option.splits)

lemma CreateEvent_this:
  "this (snd (CreateEvent C E I ev w)) =
     (this w)\<lparr>anchor := lazy_text C (anchor (this w)) (map_option scalar_anchor (NativeEvent (this w))),
              tag := lazy_text C (tag (this w)) (map_option scalar_tag (NativeEvent (this w))),
              value_field := lazy_text C (value_field (this w)) (map_option scalar_value (NativeEvent (this w)))\<rparr>"
proof (cases "lazy_text C (value_field (this w)) (map_option scalar_value (NativeEvent (this w)))")
  case None
  then show ?thesis
    by (simp add: CreateEvent_None [OF None refl refl])
next
  case (Some v)
  then show ?thesis
    by (simp add: CreateEvent_Some [OF Some refl refl refl refl refl refl refl])
qed


lemmas after_simps = Anchor_get_eq Tag_get_eq Value_get_eq Length_get_world
  IsPlainImplicit_get_def IsQuotedImplicit_get_def Style_get_def ToString_world CreateEvent_this

lemma after_NativeEvent: "NativeEvent (this (after C E I m w)) = NativeEvent (this w)"
  by (cases m) (simp_all add: after_simps)

lemma after_style: "style (this (after C E I m w)) = style (this w)"
  by (cases m) (simp_all add: after_simps)

lemma after_isPlainImplicit: "isPlainImplicit (this (after C E I m w)) = isPlainImplicit (this w)"
  by (cases m) (simp_all add: after_simps)

lemma after_isQuotedImplicit: "isQuotedImplicit (this (after C E I m w)) = isQuotedImplicit (this w)"
  by (cases m) (simp_all add: after_simps)

lemma after_detached:
  "NativeEvent (this w) = None \<Longrightarrow> this (after C E I m w) = this w"
  by (cases m) (simp_all add: after_simps lazy_text_detached)

lemma after_anchor: "anchor (this w) = Some a \<Longrightarrow> anchor (this (after C E I m w)) = Some a"
  by (cases m) (simp_all add: after_simps lazy_text_Some)

lemma after_tag: "tag (this w) = Some t \<Longrightarrow> tag (this (after C E I m w)) = Some t"
  by (cases m) (simp_all add: after_simps lazy_text_Some)

lemma after_value_field:
  "value_field (this w) = Some v \<Longrightarrow> value_field (this (after C E I m w)) = Some v"
  by (cases m) (simp_all add: after_simps lazy_text_Some)

lemma history_Nil: "history C E I [] w = w"
  by (simp add: history_def)

lemma history_Cons: "history C E I (m # ms) w = history C E I ms (after C E I m w)"
  by (simp add: history_def)

lemma history_NativeEvent: "NativeEvent (this (history C E I ms w)) = NativeEvent (this w)"
  by (induction ms arbitrary: w) (simp_all add: history_Nil history_Cons after_NativeEvent)

lemma history_style: "style (this (history C E I ms w)) = style (this w)"
  by (induction ms arbitrary: w) (simp_all add: history_Nil history_Cons after_style)

lemma history_isPlainImplicit:
  "isPlainImplicit (this (history C E I ms w)) = isPlainImplicit (this w)"
  by (induction ms arbitrary: w) (simp_all add: history_Nil history_Cons after_isPlainImplicit)

lemma history_isQuotedImplicit:
  "isQuotedImplicit (this (history C E I ms w)) = isQuotedImplicit (this w)"
  by (induction ms arbitrary: w) (simp_all add: history_Nil history_Cons after_isQuotedImplicit)

lemma history_detached:
  "NativeEvent (this w) = None \<Longrightarrow> this (history C E I ms w) = this w"
  by (induction ms arbitrary: w)
     (simp_all add: history_Nil history_Cons after_detached after_NativeEvent)

lemma history_anchor:
  "anchor (this w) = Some a \<Longrightarrow> anchor (this (history C E I ms w)) = Some a"
  by (induction ms arbitrary: w) (simp_all add: history_Nil history_Cons after_anchor)

lemma history_tag: "tag (this w) = Some t \<Longrightarrow> tag (this (history C E I ms w)) = Some t"
  by (induction ms arbitrary: w) (simp_all add: history_Nil history_Cons after_tag)

lemma history_value_field:
  "value_field (this w) = Some v \<Longrightarrow> value_field (this (history C E I ms w)) = Some v"
  by (induction ms arbitrary: w) (simp_all add: history_Nil history_Cons after_value_field)

subsection \<open>What the accessors return, and where the new buffers lie\<close>

lemma Value_text:
  "fst (Value_get C w) = Inr v \<longleftrightarrow>
     lazy_text C (value_field (this w)) (map_option scalar_value (NativeEvent (this w))) = v"
  by (simp add: Value_get_eq)

lemma Anchor_text:
  "fst (Anchor_get C w) = Inr a \<longleftrightarrow>
     lazy_text C (anchor (this w)) (map_option scalar_anchor (NativeEvent (this w))) = a"
  by (simp add: Anchor_get_eq)

lemma Tag_text:
  "fst (Tag_get C w) = Inr t \<longleftrightarrow>
     lazy_text C (tag (this w)) (map_option scalar_tag (NativeEvent (this w))) = t"
  by (simp add: Tag_get_eq)

lemma new_pointer_None: "(new_pointer x n = None) = (x = None)"
  by (simp add: new_pointer_def)

lemma bytes_at_new2:
  "bytes_at (h0 @ new_cells x @ new_cells y @ rest)
     (new_pointer y (length h0 + length (new_cells x))) = y"
  using bytes_at_new [of "h0 @ new_cells x" y rest] by simp

lemma bytes_at_new3:
  "bytes_at (h0 @ new_cells x @ new_cells y @ new_cells z)
     (new_pointer z (length h0 + length (new_cells x) + length (new_cells y))) = z"
  using bytes_at_new [of "h0 @ new_cells x @ new_cells y" z "[]"] by (simp add: add.assoc)

subsection \<open>Reading a lazy accessor again\<close>

lemma Anchor_cached_for_good:
  assumes "fst (Anchor_get C w) = Inr (Some a)"
  shows "Anchor_get C (history C E I ms (snd (Anchor_get C w)))
           = (Inr (Some a), history C E I ms (snd (Anchor_get C w)))"
proof -
  have "anchor (this (snd (Anchor_get C w))) = Some a"
    using assms by (simp add: Anchor_get_eq)
  then have "anchor (this (history C E I ms (snd (Anchor_get C w)))) = Some a"
    by (rule history_anchor)
  then show ?thesis
    by (rule Anchor_get_cached)
qed

lemma Tag_cached_for_good:
  assumes "fst (Tag_get C w) = Inr (Some t)"
  shows "Tag_get C (history C E I ms (snd (Tag_get C w)))
           = (Inr (Some t), history C E I ms (snd (Tag_get C w)))"
proof -
  have "tag (this (snd (Tag_get C w))) = Some t"
    using assms by (simp add: Tag_get_eq)
  then have "tag (this (history C E I ms (snd (Tag_get C w)))) = Some t"
    by (rule history_tag)
  then show ?thesis
    by (rule Tag_get_cached)
qed

lemma Value_cached_for_good:
  assumes "fst (Value_get C w) = Inr (Some v)"
  shows "Value_get C (history C E I ms (snd (Value_get C w)))
           = (Inr (Some v), history C E I ms (snd (Value_get C w)))"
proof -
  have "value_field (this (snd (Value_get C w))) = Some v"
    using assms by (simp add: Value_get_eq)
  then have "value_field (this (history C E I ms (snd (Value_get C w)))) = Some v"
    by (rule history_value_field)
  then show ?thesis
    by (rule Value_get_cached)
qed

lemma Anchor_absent_again:
  assumes "NativeEvent (this w) = Some n" and "fst (Anchor_get C w) = Inr None"
  shows "decode_log (snd (Anchor_get C w)) = decode_log w @ [scalar_anchor n]"
    and "fst (twice (Anchor_get C) w) = Inr None"
    and "decode_log (snd (twice (Anchor_get C) w))
           = decode_log w @ [scalar_anchor n, scalar_anchor n]"
proof -
  have c: "anchor (this w) = None"
    using assms(2) by (cases "anchor (this w)") (simp_all add: Anchor_get_cached)
  have d: "C (scalar_anchor n) = None"
    using assms by (simp add: Anchor_get_decode [OF c])
  show "decode_log (snd (Anchor_get C w)) = decode_log w @ [scalar_anchor n]"
    by (simp add: Anchor_get_decode [OF c assms(1)])
  show "fst (twice (Anchor_get C) w) = Inr None"
    by (simp add: twice_def Anchor_get_decode [OF c assms(1)] Anchor_get_decode assms(1) d)
  show "decode_log (snd (twice (Anchor_get C) w))
           = decode_log w @ [scalar_anchor n, scalar_anchor n]"
    by (simp add: twice_def Anchor_get_decode [OF c assms(1)] Anchor_get_decode assms(1) d)
qed

lemma Tag_absent_again:
  assumes "NativeEvent (this w) = Some n" and "fst (Tag_get C w) = Inr None"
  shows "decode_log (snd (Tag_get C w)) = decode_log w @ [scalar_tag n]"
    and "fst (twice (Tag_get C) w) = Inr None"
    and "decode_log (snd (twice (Tag_get C) w)) = decode_log w @ [scalar_tag n, scalar_tag n]"
proof -
  have c: "tag (this w) = None"
    using assms(2) by (cases "tag (this w)") (simp_all add: Tag_get_cached)
  have d: "C (scalar_tag n) = None"
    using assms by (simp add: Tag_get_decode [OF c])
  show "decode_log (snd (Tag_get C w)) = decode_log w @ [scalar_tag n]"
    by (simp add: Tag_get_decode [OF c assms(1)])
  show "fst (twice (Tag_get C) w) = Inr None"
    by (simp add: twice_def Tag_get_decode [OF c assms(1)] Tag_get_decode assms(1) d)
  show "decode_log (snd (twice (Tag_get C) w)) = decode_log w @ [scalar_tag n, scalar_tag n]"
    by (simp add: twice_def Tag_get_decode [OF c assms(1)] Tag_get_decode assms(1) d)
qed

lemma Value_absent_again:
  assumes "NativeEvent (this w) = Some n" and "fst (Value_get C w) = Inr None"
  shows "decode_log (snd (Value_get C w)) = decode_log w @ [scalar_value n]"
    and "fst (twice (Value_get C) w) = Inr None"
    and "decode_log (snd (twice (Value_get C) w))
           = decode_log w @ [scalar_value n, scalar_value n]"
proof -
  have c: "value_field (this w) = None"
    using assms(2) by (cases "value_field (this w)") (simp_all add: Value_get_cached)
  have d: "C (scalar_value n) = None"
    using assms by (simp add: Value_get_decode [OF c])
  show "decode_log (snd (Value_get C w)) = decode_log w @ [scalar_value n]"
    by (simp add: Value_get_decode [OF c assms(1)])
  show "fst (twice (Value_get C) w) = Inr None"
    by (simp add: twice_def Value_get_decode [OF c assms(1)] Value_get_decode assms(1) d)
  show "decode_log (snd (twice (Value_get C) w))
           = decode_log w @ [scalar_value n, scalar_value n]"
    by (simp add: twice_def Value_get_decode [OF c assms(1)] Value_get_decode assms(1) d)
qed

lemma first_read_decodes_once:
  assumes "NativeEvent (this w) = Some n"
  shows "anchor (this w) = None \<Longrightarrow>
           decode_log (snd (Anchor_get C w)) = decode_log w @ [scalar_anchor n]"
    and "tag (this w) = None \<Longrightarrow>
           decode_log (snd (Tag_get C w)) = decode_log w @ [scalar_tag n]"
    and "value_field (this w) = None \<Longrightarrow>
           decode_log (snd (Value_get C w)) = decode_log w @ [scalar_value n]"
  using assms by (simp_all add: Anchor_get_decode Tag_get_decode Value_get_decode)

lemma Length_get_flag: "fst (Length_get (w\<lparr>this := (this w)\<lparr>isQuotedImplicit := q\<rparr>\<rparr>)) = fst (Length_get w)"
  by (simp add: Length_get_def String_Length_def split: option.splits)

subsection \<open>The write-path constructors\<close>

text \<open>
  C5: each constructor that omits fields sets them to the defaults, as the accessors read
  them: tag and anchor absent, style Plain, both implicit flags true; with only a value,
  all five defaults hold.
\<close>

theorem constructor_defaults:
  "fst (Tag_get Convert (fresh (ScalarEvent_new1 v))) = Inr None
   \<and> fst (Anchor_get Convert (fresh (ScalarEvent_new1 v))) = Inr None
   \<and> fst (Style_get (fresh (ScalarEvent_new1 v))) = Inr Plain
   \<and> fst (IsPlainImplicit_get (fresh (ScalarEvent_new1 v))) = Inr True
   \<and> fst (IsQuotedImplicit_get (fresh (ScalarEvent_new1 v))) = Inr True
   \<and> fst (Value_get Convert (fresh (ScalarEvent_new1 v))) = Inr v
   \<and> fst (Anchor_get Convert (fresh (ScalarEvent_new2 v t))) = Inr None
   \<and> fst (Style_get (fresh (ScalarEvent_new2 v t))) = Inr Plain
   \<and> fst (IsPlainImplicit_get (fresh (ScalarEvent_new2 v t))) = Inr True
   \<and> fst (IsQuotedImplicit_get (fresh (ScalarEvent_new2 v t))) = Inr True
   \<and> fst (Style_get (fresh (ScalarEvent_new3 v t a))) = Inr Plain
   \<and> fst (IsPlainImplicit_get (fresh (ScalarEvent_new3 v t a))) = Inr True
   \<and> fst (IsQuotedImplicit_get (fresh (ScalarEvent_new3 v t a))) = Inr True
   \<and> fst (IsPlainImplicit_get (fresh (ScalarEvent_new4 v t a st))) = Inr True
   \<and> fst (IsQuotedImplicit_get (fresh (ScalarEvent_new4 v t a st))) = Inr True"
  by (simp add: this_fresh Tag_get_detached Anchor_get_detached Value_get_detached
      ScalarEvent_new1_def ScalarEvent_new2_def ScalarEvent_new3_def ScalarEvent_new4_def
      Style_get_def IsPlainImplicit_get_def IsQuotedImplicit_get_def)

text \<open>
  C6: a detached event made by the six-argument constructor gives back, through the
  accessors Value, Tag, Anchor, Style, IsPlainImplicit and IsQuotedImplicit, exactly the six
  values supplied, and no read changes the object or decodes anything.
\<close>

theorem full_constructor_readback:
  "Value_get Convert (fresh (ScalarEvent_new6 v t a st p q))
     = (Inr v, fresh (ScalarEvent_new6 v t a st p q))
   \<and> Tag_get Convert (fresh (ScalarEvent_new6 v t a st p q))
     = (Inr t, fresh (ScalarEvent_new6 v t a st p q))
   \<and> Anchor_get Convert (fresh (ScalarEvent_new6 v t a st p q))
     = (Inr a, fresh (ScalarEvent_new6 v t a st p q))
   \<and> Style_get (fresh (ScalarEvent_new6 v t a st p q))
     = (Inr st, fresh (ScalarEvent_new6 v t a st p q))
   \<and> IsPlainImplicit_get (fresh (ScalarEvent_new6 v t a st p q))
     = (Inr p, fresh (ScalarEvent_new6 v t a st p q))
   \<and> IsQuotedImplicit_get (fresh (ScalarEvent_new6 v t a st p q))
     = (Inr q, fresh (ScalarEvent_new6 v t a st p q))"
  by (simp add: this_fresh Tag_get_detached Anchor_get_detached Value_get_detached
      ScalarEvent_new6_def Style_get_def IsPlainImplicit_get_def IsQuotedImplicit_get_def)

subsection \<open>Lazy decoding\<close>

text \<open>
  C2, as the code has it. On every bound event, whatever the other two cache fields hold
  and whatever has been called before: a read of Anchor (of Tag, of Value) whose own
  cache field is empty asks for exactly one decode, of the raw bytes of that field, and
  returns what the converter gives; a read whose cache field is filled returns the cached
  text and changes nothing. When the text read is present, the second of two reads in
  succession, and every read after any further calls on the object, returns that text and
  leaves the world as it found it: no further decode. When the text read is absent nothing
  is cached, and the second of two reads in succession decodes again and returns absent.
\<close>

theorem lazy_decode_cached_when_present:
  assumes "NativeEvent (this w) = Some n"
  shows
    "(anchor (this w) = None \<longrightarrow>
        fst (Anchor_get C w) = Inr (C (scalar_anchor n))
      \<and> decode_log (snd (Anchor_get C w)) = decode_log w @ [scalar_anchor n])
     \<and> (\<forall>a. anchor (this w) = Some a \<longrightarrow> Anchor_get C w = (Inr (Some a), w))
     \<and> (\<forall>a. fst (Anchor_get C w) = Inr (Some a) \<longrightarrow>
            twice (Anchor_get C) w = (Inr (Some a), snd (Anchor_get C w))
          \<and> (\<forall>ms. Anchor_get C (history C E I ms (snd (Anchor_get C w)))
                     = (Inr (Some a), history C E I ms (snd (Anchor_get C w)))))
     \<and> (fst (Anchor_get C w) = Inr None \<longrightarrow>
            fst (twice (Anchor_get C) w) = Inr None
          \<and> decode_log (snd (twice (Anchor_get C) w))
              = decode_log w @ [scalar_anchor n, scalar_anchor n])
     \<and> (tag (this w) = None \<longrightarrow>
        fst (Tag_get C w) = Inr (C (scalar_tag n))
      \<and> decode_log (snd (Tag_get C w)) = decode_log w @ [scalar_tag n])
     \<and> (\<forall>t. tag (this w) = Some t \<longrightarrow> Tag_get C w = (Inr (Some t), w))
     \<and> (\<forall>t. fst (Tag_get C w) = Inr (Some t) \<longrightarrow>
            twice (Tag_get C) w = (Inr (Some t), snd (Tag_get C w))
          \<and> (\<forall>ms. Tag_get C (history C E I ms (snd (Tag_get C w)))
                     = (Inr (Some t), history C E I ms (snd (Tag_get C w)))))
     \<and> (fst (Tag_get C w) = Inr None \<longrightarrow>
            fst (twice (Tag_get C) w) = Inr None
          \<and> decode_log (snd (twice (Tag_get C) w))
              = decode_log w @ [scalar_tag n, scalar_tag n])
     \<and> (value_field (this w) = None \<longrightarrow>
        fst (Value_get C w) = Inr (C (scalar_value n))
      \<and> decode_log (snd (Value_get C w)) = decode_log w @ [scalar_value n])
     \<and> (\<forall>v. value_field (this w) = Some v \<longrightarrow> Value_get C w = (Inr (Some v), w))
     \<and> (\<forall>v. fst (Value_get C w) = Inr (Some v) \<longrightarrow>
            twice (Value_get C) w = (Inr (Some v), snd (Value_get C w))
          \<and> (\<forall>ms. Value_get C (history C E I ms (snd (Value_get C w)))
                     = (Inr (Some v), history C E I ms (snd (Value_get C w)))))
     \<and> (fst (Value_get C w) = Inr None \<longrightarrow>
            fst (twice (Value_get C) w) = Inr None
          \<and> decode_log (snd (twice (Value_get C) w))
              = decode_log w @ [scalar_value n, scalar_value n])"
proof -
  have A: "\<And>a. fst (Anchor_get C w) = Inr (Some a) \<Longrightarrow>
            twice (Anchor_get C) w = (Inr (Some a), snd (Anchor_get C w))"
    using Anchor_cached_for_good [of C w _ E I "[]"] by (simp add: twice_def history_Nil)
  have T: "\<And>t. fst (Tag_get C w) = Inr (Some t) \<Longrightarrow>
            twice (Tag_get C) w = (Inr (Some t), snd (Tag_get C w))"
    using Tag_cached_for_good [of C w _ E I "[]"] by (simp add: twice_def history_Nil)
  have V: "\<And>v. fst (Value_get C w) = Inr (Some v) \<Longrightarrow>
            twice (Value_get C) w = (Inr (Some v), snd (Value_get C w))"
    using Value_cached_for_good [of C w _ E I "[]"] by (simp add: twice_def history_Nil)
  have A1: "anchor (this w) = None \<longrightarrow>
        fst (Anchor_get C w) = Inr (C (scalar_anchor n))
      \<and> decode_log (snd (Anchor_get C w)) = decode_log w @ [scalar_anchor n]"
    using assms by (simp add: Anchor_get_decode)
  have T1: "tag (this w) = None \<longrightarrow>
        fst (Tag_get C w) = Inr (C (scalar_tag n))
      \<and> decode_log (snd (Tag_get C w)) = decode_log w @ [scalar_tag n]"
    using assms by (simp add: Tag_get_decode)
  have V1: "value_field (this w) = None \<longrightarrow>
        fst (Value_get C w) = Inr (C (scalar_value n))
      \<and> decode_log (snd (Value_get C w)) = decode_log w @ [scalar_value n]"
    using assms by (simp add: Value_get_decode)
  have A2: "\<forall>a. anchor (this w) = Some a \<longrightarrow> Anchor_get C w = (Inr (Some a), w)"
    by (simp add: Anchor_get_cached)
  have T2: "\<forall>t. tag (this w) = Some t \<longrightarrow> Tag_get C w = (Inr (Some t), w)"
    by (simp add: Tag_get_cached)
  have V2: "\<forall>v. value_field (this w) = Some v \<longrightarrow> Value_get C w = (Inr (Some v), w)"
    by (simp add: Value_get_cached)
  have A3: "\<forall>a. fst (Anchor_get C w) = Inr (Some a) \<longrightarrow>
            twice (Anchor_get C) w = (Inr (Some a), snd (Anchor_get C w))
          \<and> (\<forall>ms. Anchor_get C (history C E I ms (snd (Anchor_get C w)))
                     = (Inr (Some a), history C E I ms (snd (Anchor_get C w))))"
    using A Anchor_cached_for_good [of C w _ E I] by blast
  have T3: "\<forall>t. fst (Tag_get C w) = Inr (Some t) \<longrightarrow>
            twice (Tag_get C) w = (Inr (Some t), snd (Tag_get C w))
          \<and> (\<forall>ms. Tag_get C (history C E I ms (snd (Tag_get C w)))
                     = (Inr (Some t), history C E I ms (snd (Tag_get C w))))"
    using T Tag_cached_for_good [of C w _ E I] by blast
  have V3: "\<forall>v. fst (Value_get C w) = Inr (Some v) \<longrightarrow>
            twice (Value_get C) w = (Inr (Some v), snd (Value_get C w))
          \<and> (\<forall>ms. Value_get C (history C E I ms (snd (Value_get C w)))
                     = (Inr (Some v), history C E I ms (snd (Value_get C w))))"
    using V Value_cached_for_good [of C w _ E I] by blast
  have A4: "fst (Anchor_get C w) = Inr None \<longrightarrow>
            fst (twice (Anchor_get C) w) = Inr None
          \<and> decode_log (snd (twice (Anchor_get C) w))
              = decode_log w @ [scalar_anchor n, scalar_anchor n]"
    using Anchor_absent_again(2,3) [OF assms, of C] by blast
  have T4: "fst (Tag_get C w) = Inr None \<longrightarrow>
            fst (twice (Tag_get C) w) = Inr None
          \<and> decode_log (snd (twice (Tag_get C) w))
              = decode_log w @ [scalar_tag n, scalar_tag n]"
    using Tag_absent_again(2,3) [OF assms, of C] by blast
  have V4: "fst (Value_get C w) = Inr None \<longrightarrow>
            fst (twice (Value_get C) w) = Inr None
          \<and> decode_log (snd (twice (Value_get C) w))
              = decode_log w @ [scalar_value n, scalar_value n]"
    using Value_absent_again(2,3) [OF assms, of C] by blast
  show ?thesis
    by (intro conjI A1 A2 A3 A4 T1 T2 T3 T4 V1 V2 V3 V4)
qed

text \<open>
  The theorem at the bound event of \<open>anchored_record\<close>: Anchor is decoded once and then
  read from the cache; after that read, with the anchor's cache filled, Tag is decoded once
  and then read from the cache.
\<close>

theorem lazy_decode_cached_when_present_witness:
  "NativeEvent (this (fresh (ScalarEvent_bound ScalarStyle_cast anchored_record)))
     = Some anchored_record
   \<and> anchor (this (fresh (ScalarEvent_bound ScalarStyle_cast anchored_record))) = None
   \<and> fst (Anchor_get StringConverter_decode
            (fresh (ScalarEvent_bound ScalarStyle_cast anchored_record))) = Inr (Some ''a1'')
   \<and> decode_log (snd (Anchor_get StringConverter_decode
                         (fresh (ScalarEvent_bound ScalarStyle_cast anchored_record))))
       = [Some [0x61, 0x31]]
   \<and> twice (Anchor_get StringConverter_decode)
         (fresh (ScalarEvent_bound ScalarStyle_cast anchored_record))
       = (Inr (Some ''a1''),
          snd (Anchor_get StringConverter_decode
                 (fresh (ScalarEvent_bound ScalarStyle_cast anchored_record))))
   \<and> anchor (this (snd (Anchor_get StringConverter_decode
                           (fresh (ScalarEvent_bound ScalarStyle_cast anchored_record)))))
       = Some ''a1''
   \<and> tag (this (snd (Anchor_get StringConverter_decode
                        (fresh (ScalarEvent_bound ScalarStyle_cast anchored_record))))) = None
   \<and> fst (Tag_get StringConverter_decode
            (snd (Anchor_get StringConverter_decode
                    (fresh (ScalarEvent_bound ScalarStyle_cast anchored_record)))))
       = Inr (Some ''!!str'')
   \<and> decode_log (snd (Tag_get StringConverter_decode
                         (snd (Anchor_get StringConverter_decode
                                 (fresh (ScalarEvent_bound ScalarStyle_cast anchored_record))))))
       = [Some [0x61, 0x31], Some [0x21, 0x21, 0x73, 0x74, 0x72]]
   \<and> twice (Tag_get StringConverter_decode)
         (snd (Anchor_get StringConverter_decode
                 (fresh (ScalarEvent_bound ScalarStyle_cast anchored_record))))
       = (Inr (Some ''!!str''),
          snd (Tag_get StringConverter_decode
                 (snd (Anchor_get StringConverter_decode
                         (fresh (ScalarEvent_bound ScalarStyle_cast anchored_record))))))"
proof -
  let ?w = "fresh (ScalarEvent_bound ScalarStyle_cast anchored_record)"
  let ?w1 = "snd (Anchor_get StringConverter_decode ?w)"
  have n: "NativeEvent (this ?w) = Some anchored_record"
    and a: "anchor (this ?w) = None"
    and l: "decode_log ?w = []"
    by (simp_all add: fresh_def ScalarEvent_bound_def)
  have r: "scalar_anchor anchored_record = Some [0x61, 0x31]"
    "scalar_tag anchored_record = Some [0x21, 0x21, 0x73, 0x74, 0x72]"
    by (simp_all add: anchored_record_def hello_record_def)
  have c: "StringConverter_decode (Some [0x61, 0x31]) = Some ''a1''"
    "StringConverter_decode (Some [0x21, 0x21, 0x73, 0x74, 0x72]) = Some ''!!str''"
    by code_simp+
  note first = lazy_decode_cached_when_present
    [OF n, of StringConverter_decode StringConverter_encode initialize_ok]
  from first a have ra: "fst (Anchor_get StringConverter_decode ?w) = Inr (Some ''a1'')"
    and la: "decode_log ?w1 = [Some [0x61, 0x31]]"
    unfolding r c l by simp_all
  from first ra have a2: "twice (Anchor_get StringConverter_decode) ?w = (Inr (Some ''a1''), ?w1)"
    by blast
  have n1: "NativeEvent (this ?w1) = Some anchored_record"
    and a1: "anchor (this ?w1) = Some ''a1''"
    and t1: "tag (this ?w1) = None"
    using ra by (simp_all add: Anchor_get_eq fresh_def ScalarEvent_bound_def)
  note second = lazy_decode_cached_when_present
    [OF n1, of StringConverter_decode StringConverter_encode initialize_ok]
  from second t1 have rt: "fst (Tag_get StringConverter_decode ?w1) = Inr (Some ''!!str'')"
    and lt: "decode_log (snd (Tag_get StringConverter_decode ?w1))
               = [Some [0x61, 0x31], Some [0x21, 0x21, 0x73, 0x74, 0x72]]"
    unfolding r c la by simp_all
  from second rt have t2: "twice (Tag_get StringConverter_decode) ?w1
       = (Inr (Some ''!!str''), snd (Tag_get StringConverter_decode ?w1))"
    by blast
  from n a ra la a2 a1 t1 rt lt t2 show ?thesis
    by blast
qed

text \<open>
  C2 as stated fails where the decoded text is absent: \<open>hello_record\<close> has no anchor,
  and two reads of Anchor in succession ask for two decodes.
\<close>

theorem absent_anchor_decoded_twice:
  "decode_log (snd (twice (Anchor_get StringConverter_decode)
                      (fresh (ScalarEvent_bound ScalarStyle_cast hello_record))))
     = [None, None]
   \<and> fst (twice (Anchor_get StringConverter_decode)
            (fresh (ScalarEvent_bound ScalarStyle_cast hello_record))) = Inr None"
  by code_simp

subsection \<open>Length\<close>

text \<open>
  C3, as the code has it: on a bound event \<^verbatim>\<open>Length\<close> returns the length field
  of the raw record narrowed to \<^verbatim>\<open>int\<close>, which is the field itself when it is below
  \<open>2 ^ 31\<close>, at once and after any calls on the object, and leaves the world as it
  found it (nothing is cached), whatever the decoded Value is; on a detached event whose
  value text is present it returns the number of characters of that text.
\<close>

theorem Length_from_record_or_value:
  "(NativeEvent (this w) = Some n \<longrightarrow>
      Length_get (history C E I ms w)
        = (Inr (int_of_size_t (scalar_length n)), history C E I ms w)
      \<and> (scalar_length n < 2 ^ 31 \<longrightarrow>
           Length_get (history C E I ms w) = (Inr (int (scalar_length n)), history C E I ms w)))
   \<and> (NativeEvent (this w) = None \<longrightarrow> value_field (this w) = Some v \<longrightarrow>
      Length_get (history C E I ms w) = (Inr (int (length v)), history C E I ms w))"
proof (intro conjI impI)
  assume "NativeEvent (this w) = Some n"
  then have "NativeEvent (this (history C E I ms w)) = Some n"
    by (simp add: history_NativeEvent)
  then show b: "Length_get (history C E I ms w)
                  = (Inr (int_of_size_t (scalar_length n)), history C E I ms w)"
    by (rule Length_get_bound)
  assume "scalar_length n < 2 ^ 31"
  then show "Length_get (history C E I ms w) = (Inr (int (scalar_length n)), history C E I ms w)"
    using b by (simp add: int_of_size_t_in_range)
next
  assume d: "NativeEvent (this w) = None" and v: "value_field (this w) = Some v"
  have "NativeEvent (this (history C E I ms w)) = None"
    using d by (simp add: history_NativeEvent)
  moreover have "value_field (this (history C E I ms w)) = Some v"
    using v by (rule history_value_field)
  ultimately show "Length_get (history C E I ms w) = (Inr (int (length v)), history C E I ms w)"
    by (simp add: Length_get_detached String_Length_def)
qed

text \<open>
  The theorem at the bound event of \<open>cafe_record\<close>, whose length field is 5 while the
  decoded Value has 4 characters, and at the detached \<open>full_event\<close>.
\<close>

theorem Length_from_record_or_value_witness:
  "NativeEvent (this (fresh (ScalarEvent_bound ScalarStyle_cast cafe_record))) = Some cafe_record
   \<and> scalar_length cafe_record = 5
   \<and> NativeEvent (this (fresh full_event)) = None
   \<and> value_field (this (fresh full_event)) = Some ''x''
   \<and> fst (Value_get cafe_decode (fresh (ScalarEvent_bound ScalarStyle_cast cafe_record)))
     = Inr (Some [CHR ''c'', CHR ''a'', CHR ''f'', CHR 0xE9])
   \<and> fst (Length_get (fresh (ScalarEvent_bound ScalarStyle_cast cafe_record))) = Inr 5
   \<and> fst (Length_get (history cafe_decode StringConverter_encode initialize_ok
                         [Read_Value, Read_Length, Call_ToString]
                         (fresh (ScalarEvent_bound ScalarStyle_cast cafe_record)))) = Inr 5
   \<and> fst (Length_get (fresh full_event)) = Inr 1
   \<and> fst (Length_get (history StringConverter_decode StringConverter_encode initialize_ok
                         [Call_CreateEvent 7, Read_Value] (fresh full_event))) = Inr 1"
proof -
  let ?b = "fresh (ScalarEvent_bound ScalarStyle_cast cafe_record)"
  have v: "fst (Value_get cafe_decode ?b) = Inr (Some [CHR ''c'', CHR ''a'', CHR ''f'', CHR 0xE9])"
    by code_simp
  have b: "NativeEvent (this ?b) = Some cafe_record" "scalar_length cafe_record = 5"
    by (simp_all add: fresh_def ScalarEvent_bound_def cafe_record_def)
  have d: "NativeEvent (this (fresh full_event)) = None"
    "value_field (this (fresh full_event)) = Some ''x''"
    by (simp_all add: fresh_def full_event_def ScalarEvent_new6_def)
  have r: "scalar_length cafe_record < 2 ^ 31"
    by (simp add: b(2))
  from Length_from_record_or_value [of ?b cafe_record _ _ _ "[]"] b(1) r
  have "Length_get (history StringConverter_decode StringConverter_encode initialize_ok [] ?b)
          = (Inr (int (scalar_length cafe_record)),
             history StringConverter_decode StringConverter_encode initialize_ok [] ?b)"
    by blast
  then have 1: "fst (Length_get ?b) = Inr 5"
    by (simp add: history_Nil b(2))
  from Length_from_record_or_value
    [of ?b cafe_record cafe_decode StringConverter_encode initialize_ok
        "[Read_Value, Read_Length, Call_ToString]"] b(1) r
  have "Length_get (history cafe_decode StringConverter_encode initialize_ok
                 [Read_Value, Read_Length, Call_ToString] ?b)
          = (Inr (int (scalar_length cafe_record)),
             history cafe_decode StringConverter_encode initialize_ok
                 [Read_Value, Read_Length, Call_ToString] ?b)"
    by blast
  then have 2: "fst (Length_get (history cafe_decode StringConverter_encode initialize_ok
                 [Read_Value, Read_Length, Call_ToString] ?b)) = Inr 5"
    by (simp add: b(2))
  from Length_from_record_or_value [of "fresh full_event" _ _ _ _ "[]" "''x''"] d
  have 3: "fst (Length_get (fresh full_event)) = Inr 1"
    by (simp add: history_Nil)
  from Length_from_record_or_value
    [of "fresh full_event" _ StringConverter_decode StringConverter_encode initialize_ok
        "[Call_CreateEvent 7, Read_Value]" "''x''"] d
  have 4: "fst (Length_get (history StringConverter_decode StringConverter_encode initialize_ok
                 [Call_CreateEvent 7, Read_Value] (fresh full_event))) = Inr 1"
    by simp
  from b d v 1 2 3 4 show ?thesis by blast
qed

text \<open>
  C3 as stated fails in two places. On a bound event whose length field is \<open>2 ^ 31\<close>,
  \<^verbatim>\<open>Length\<close> returns a negative number, not the field. On a detached event whose value
  is absent there is no character count to return, and \<^verbatim>\<open>Length\<close> raises.
\<close>

theorem Length_is_not_always_the_field_or_the_count:
  "NativeEvent (this (fresh (ScalarEvent_bound ScalarStyle_cast huge_record))) = Some huge_record
   \<and> scalar_length huge_record = 2147483648
   \<and> fst (Length_get (fresh (ScalarEvent_bound ScalarStyle_cast huge_record)))
       = Inr (- 2147483648)
   \<and> NativeEvent (this (fresh (ScalarEvent_new2 None (Some ''!!str'')))) = None
   \<and> value_field (this (fresh (ScalarEvent_new2 None (Some ''!!str'')))) = None
   \<and> Length_get (fresh (ScalarEvent_new2 None (Some ''!!str'')))
       = (Inl NullReferenceException, fresh (ScalarEvent_new2 None (Some ''!!str'')))"
proof -
  let ?b = "fresh (ScalarEvent_bound ScalarStyle_cast huge_record)"
  let ?d = "fresh (ScalarEvent_new2 None (Some ''!!str''))"
  have n: "NativeEvent (this ?b) = Some huge_record"
    by (simp add: fresh_def ScalarEvent_bound_def)
  have l: "scalar_length huge_record = 2147483648"
    by (simp add: huge_record_def)
  have c: "int_of_size_t 2147483648 = - 2147483648"
    by (simp add: int_of_size_t_def)
  have b: "fst (Length_get ?b) = Inr (- 2147483648)"
    by (simp add: Length_get_bound [OF n] l c)
  have d: "NativeEvent (this ?d) = None" "value_field (this ?d) = None"
    by (simp_all add: fresh_def ScalarEvent_new2_def)
  have r: "Length_get ?d = (Inl NullReferenceException, ?d)"
    by (simp add: Length_get_detached d String_Length_def)
  from n l b d r show ?thesis
    by blast
qed

subsection \<open>Which accessors can fail\<close>

text \<open>
  C7, as the code has it: on every event, bound or detached, the accessors Anchor, Tag,
  Value, Style, IsPlainImplicit and IsQuotedImplicit return a result and never raise;
  \<^verbatim>\<open>Length\<close> returns a result exactly when the event is bound or its value text is
  present, and otherwise raises the null dereference. An absent anchor or tag of a
  detached event is returned as absent, with no decode; an absent raw anchor or tag of a
  bound event is returned as whatever the converter gives for the null pointer.
\<close>

theorem accessors_total_but_Length:
  "(\<exists>r. fst (Anchor_get C w) = Inr r)
   \<and> (\<exists>r. fst (Tag_get C w) = Inr r)
   \<and> (\<exists>r. fst (Value_get C w) = Inr r)
   \<and> (\<exists>r. fst (Style_get w) = Inr r)
   \<and> (\<exists>r. fst (IsPlainImplicit_get w) = Inr r)
   \<and> (\<exists>r. fst (IsQuotedImplicit_get w) = Inr r)
   \<and> ((\<exists>r. fst (Length_get w) = Inr r)
        = (NativeEvent (this w) \<noteq> None \<or> value_field (this w) \<noteq> None))
   \<and> (fst (Length_get w) = Inl NullReferenceException
        \<or> (\<exists>r. fst (Length_get w) = Inr r))
   \<and> (NativeEvent (this w) = None \<longrightarrow> anchor (this w) = None \<longrightarrow>
         Anchor_get C w = (Inr None, w))
   \<and> (NativeEvent (this w) = None \<longrightarrow> tag (this w) = None \<longrightarrow>
         Tag_get C w = (Inr None, w))
   \<and> (\<forall>n. NativeEvent (this w) = Some n \<longrightarrow> anchor (this w) = None \<longrightarrow>
         scalar_anchor n = None \<longrightarrow> fst (Anchor_get C w) = Inr (C None))
   \<and> (\<forall>n. NativeEvent (this w) = Some n \<longrightarrow> tag (this w) = None \<longrightarrow>
         scalar_tag n = None \<longrightarrow> fst (Tag_get C w) = Inr (C None))"
proof -
  have L: "(\<exists>r. fst (Length_get w) = Inr r)
        = (NativeEvent (this w) \<noteq> None \<or> value_field (this w) \<noteq> None)"
    by (cases "NativeEvent (this w)"; cases "value_field (this w)")
       (simp_all add: Length_get_def String_Length_def)
  have L': "fst (Length_get w) = Inl NullReferenceException \<or> (\<exists>r. fst (Length_get w) = Inr r)"
    by (cases "NativeEvent (this w)"; cases "value_field (this w)")
       (simp_all add: Length_get_def String_Length_def)
  have T: "(\<exists>r. fst (Anchor_get C w) = Inr r) \<and> (\<exists>r. fst (Tag_get C w) = Inr r)
       \<and> (\<exists>r. fst (Value_get C w) = Inr r) \<and> (\<exists>r. fst (Style_get w) = Inr r)
       \<and> (\<exists>r. fst (IsPlainImplicit_get w) = Inr r) \<and> (\<exists>r. fst (IsQuotedImplicit_get w) = Inr r)"
    by (simp add: Anchor_get_eq Tag_get_eq Value_get_eq Style_get_def IsPlainImplicit_get_def
        IsQuotedImplicit_get_def)
  have D: "NativeEvent (this w) = None \<longrightarrow> anchor (this w) = None \<longrightarrow>
         Anchor_get C w = (Inr None, w)"
    "NativeEvent (this w) = None \<longrightarrow> tag (this w) = None \<longrightarrow> Tag_get C w = (Inr None, w)"
    by (simp_all add: Anchor_get_detached Tag_get_detached)
  have B: "\<forall>n. NativeEvent (this w) = Some n \<longrightarrow> anchor (this w) = None \<longrightarrow>
         scalar_anchor n = None \<longrightarrow> fst (Anchor_get C w) = Inr (C None)"
    "\<forall>n. NativeEvent (this w) = Some n \<longrightarrow> tag (this w) = None \<longrightarrow>
         scalar_tag n = None \<longrightarrow> fst (Tag_get C w) = Inr (C None)"
    by (simp_all add: Anchor_get_decode Tag_get_decode)
  from T L L' D B show ?thesis
    by blast
qed

text \<open>
  The theorem at the bound event of \<open>hello_record\<close> (no anchor), at \<open>full_event\<close> and
  at a detached event with a value only.
\<close>

theorem accessors_total_but_Length_witness:
  "NativeEvent (this (fresh (ScalarEvent_bound ScalarStyle_cast hello_record))) = Some hello_record
   \<and> scalar_anchor hello_record = None
   \<and> StringConverter_decode None = None
   \<and> NativeEvent (this (fresh (ScalarEvent_new1 (Some ''x'')))) = None
   \<and> (\<exists>r. fst (Length_get (fresh (ScalarEvent_bound ScalarStyle_cast hello_record))) = Inr r)
   \<and> (\<exists>r. fst (Length_get (fresh full_event)) = Inr r)
   \<and> Anchor_get StringConverter_decode (fresh (ScalarEvent_new1 (Some ''x'')))
       = (Inr None, fresh (ScalarEvent_new1 (Some ''x'')))
   \<and> Tag_get StringConverter_decode (fresh (ScalarEvent_new1 (Some ''x'')))
       = (Inr None, fresh (ScalarEvent_new1 (Some ''x'')))
   \<and> fst (Anchor_get StringConverter_decode (fresh (ScalarEvent_bound ScalarStyle_cast hello_record)))
       = Inr None"
proof -
  let ?b = "fresh (ScalarEvent_bound ScalarStyle_cast hello_record)"
  let ?d = "fresh (ScalarEvent_new1 (Some ''x''))"
  have b: "NativeEvent (this ?b) = Some hello_record" "anchor (this ?b) = None"
    "scalar_anchor hello_record = None" "NativeEvent (this ?b) \<noteq> None"
    by (simp_all add: fresh_def ScalarEvent_bound_def hello_record_def)
  have f: "value_field (this (fresh full_event)) \<noteq> None"
    by (simp add: fresh_def full_event_def ScalarEvent_new6_def)
  have d: "NativeEvent (this ?d) = None" "anchor (this ?d) = None" "tag (this ?d) = None"
    by (simp_all add: fresh_def ScalarEvent_new1_def)
  have c: "StringConverter_decode None = None"
    by (simp add: StringConverter_decode_def)
  from accessors_total_but_Length [of StringConverter_decode ?b] b c
  have 1: "(\<exists>r. fst (Length_get ?b) = Inr r)"
    and 2: "fst (Anchor_get StringConverter_decode ?b) = Inr None"
    by auto
  from accessors_total_but_Length [of StringConverter_decode "fresh full_event"] f
  have 3: "(\<exists>r. fst (Length_get (fresh full_event)) = Inr r)"
    by blast
  from accessors_total_but_Length [of StringConverter_decode ?d] d
  have 4: "Anchor_get StringConverter_decode ?d = (Inr None, ?d)"
    and 5: "Tag_get StringConverter_decode ?d = (Inr None, ?d)"
    by blast+
  from b(1) b(3) c d(1) 1 2 3 4 5 show ?thesis by blast
qed

text \<open>
  C7 as stated fails for \<^verbatim>\<open>Length\<close>: on the detached event built from an absent
  value it raises.
\<close>

theorem Length_raises_on_absent_value:
  "fst (Length_get (fresh (ScalarEvent_new1 None))) = Inl NullReferenceException"
  by code_simp


subsection \<open>The rendering\<close>

text \<open>
  C8, as the code has it: where \<^verbatim>\<open>Length\<close> can be read, that is on every bound
  event and on every detached event whose value is present, \<^verbatim>\<open>ToString\<close> returns
  the class name, the anchor, the tag, the value (each empty when absent), the length in
  decimal, the label \<open>plain_implicit\<close> or \<open>plain_explicit\<close> chosen by
  \<open>isPlainImplicit\<close>, the label \<open>quoted_implicit\<close> or \<open>quoted_explicit\<close> chosen by
  \<open>isPlainImplicit\<close> again, and the name of the style, separated by single spaces; the
  text is a function of the event alone and is the same whatever \<open>isQuotedImplicit\<close>
  holds.
\<close>

theorem ToString_rendering:
  assumes "fst (Anchor_get C w) = Inr a"
    and "fst (Tag_get C w) = Inr t"
    and "fst (Value_get C w) = Inr v"
    and "fst (Length_get w) = Inr n"
  shows "fst (ToString C w) =
           Inr (''ScalarEvent '' @ object_text (StringObject a) @ '' ''
                @ object_text (StringObject t) @ '' ''
                @ object_text (StringObject v) @ '' ''
                @ Int32_ToString n @ '' ''
                @ (if isPlainImplicit (this w) then ''plain_implicit'' else ''plain_explicit'')
                @ '' ''
                @ (if isPlainImplicit (this w) then ''quoted_implicit'' else ''quoted_explicit'')
                @ '' '' @ ScalarStyle_name (style (this w)))
         \<and> fst (ToString C (w\<lparr>this := (this w)\<lparr>isQuotedImplicit := q\<rparr>\<rparr>)) = fst (ToString C w)"
proof -
  have A: "lazy_text C (anchor (this w)) (map_option scalar_anchor (NativeEvent (this w))) = a"
    using assms(1) by (simp add: Anchor_text)
  have T: "lazy_text C (tag (this w)) (map_option scalar_tag (NativeEvent (this w))) = t"
    using assms(2) by (simp add: Tag_text)
  have V: "lazy_text C (value_field (this w)) (map_option scalar_value (NativeEvent (this w))) = v"
    using assms(3) by (simp add: Value_text)
  let ?w' = "w\<lparr>this := (this w)\<lparr>isQuotedImplicit := q\<rparr>\<rparr>"
  have n': "fst (Length_get ?w') = Inr n"
    using assms(4) by (simp add: Length_get_flag)
  show ?thesis
    using ToString_result [OF assms(4), of C] ToString_result [OF n', of C]
    by (simp add: A T V)
qed

text \<open>
  The theorem at the bound event of \<open>hello_record\<close>, whose quoted-implicit flag is
  clear: the second label still reads \<open>quoted_implicit\<close>.
\<close>

theorem ToString_rendering_witness:
  "fst (Anchor_get StringConverter_decode (fresh (ScalarEvent_bound ScalarStyle_cast hello_record)))
     = Inr None
   \<and> fst (Tag_get StringConverter_decode (fresh (ScalarEvent_bound ScalarStyle_cast hello_record)))
     = Inr (Some ''!!str'')
   \<and> fst (Value_get StringConverter_decode (fresh (ScalarEvent_bound ScalarStyle_cast hello_record)))
     = Inr (Some ''hello'')
   \<and> fst (Length_get (fresh (ScalarEvent_bound ScalarStyle_cast hello_record))) = Inr 5
   \<and> isQuotedImplicit (this (fresh (ScalarEvent_bound ScalarStyle_cast hello_record))) = False
   \<and> fst (ToString StringConverter_decode (fresh (ScalarEvent_bound ScalarStyle_cast hello_record)))
     = Inr ''ScalarEvent  !!str hello 5 plain_implicit quoted_implicit Plain''"
proof -
  let ?w = "fresh (ScalarEvent_bound ScalarStyle_cast hello_record)"
  have a: "fst (Anchor_get StringConverter_decode ?w) = Inr None"
    and t: "fst (Tag_get StringConverter_decode ?w) = Inr (Some ''!!str'')"
    and v: "fst (Value_get StringConverter_decode ?w) = Inr (Some ''hello'')"
    and n: "fst (Length_get ?w) = Inr 5"
    by code_simp+
  have q: "isQuotedImplicit (this ?w) = False" "isPlainImplicit (this ?w) = True"
    "style (this ?w) = Plain"
    by (simp_all add: fresh_def ScalarEvent_bound_def hello_record_def)
  have i: "Int32_ToString 5 = ''5''"
    by (simp add: Int32_ToString_def digits.simps digit_char_def)
  from ToString_rendering [OF a t v n, of True]
  have "fst (ToString StringConverter_decode ?w)
     = Inr ''ScalarEvent  !!str hello 5 plain_implicit quoted_implicit Plain''"
    by (simp add: q i)
  with a t v n q show ?thesis by blast
qed

text \<open>
  C8 as stated fails on a detached event whose value is absent: \<^verbatim>\<open>ToString\<close> reads
  \<^verbatim>\<open>Length\<close>, which raises, and no text is returned.
\<close>

theorem ToString_raises_on_absent_value:
  "fst (ToString StringConverter_decode
          (fresh (ScalarEvent_new4 None (Some ''!!str'') (Some ''a1'') Literal)))
     = Inl NullReferenceException"
  by code_simp

subsection \<open>Serialization\<close>

text \<open>
  C1, as the code has it: when the event has a value text, \<^verbatim>\<open>CreateEvent\<close> makes
  exactly one call to the initialize primitive: with the record slot it was given, with
  pointers to the three buffers that hold the encodings of Anchor, Tag and Value (a null
  pointer exactly where the encoding is null), with the number of characters of Value,
  with the two implicit flags as 1 or 0, and with \<^verbatim>\<open>YAML_ANY_SCALAR_STYLE\<close>; the
  call is the same whatever the \<open>style\<close> field holds.
\<close>

theorem CreateEvent_initialize_arguments:
  assumes "fst (Anchor_get Convert w) = Inr a"
    and "fst (Tag_get Convert w) = Inr t"
    and "fst (Value_get Convert w) = Inr (Some v)"
  shows "(\<exists>h args.
           init_log (snd (CreateEvent Convert encode initialize nativeEvent w))
             = init_log w @ [(h, args)]
         \<and> arg_event args = nativeEvent
         \<and> bytes_at h (arg_anchor args) = encode a
         \<and> (arg_anchor args = None) = (encode a = None)
         \<and> bytes_at h (arg_tag args) = encode t
         \<and> (arg_tag args = None) = (encode t = None)
         \<and> bytes_at h (arg_value args) = encode (Some v)
         \<and> (arg_value args = None) = (encode (Some v) = None)
         \<and> arg_length args = int (length v)
         \<and> arg_plain_implicit args = (if isPlainImplicit (this w) then 1 else 0)
         \<and> arg_quoted_implicit args = (if isQuotedImplicit (this w) then 1 else 0)
         \<and> arg_style args = YAML_ANY_SCALAR_STYLE)
       \<and> init_log (snd (CreateEvent Convert encode initialize nativeEvent
                            (w\<lparr>this := (this w)\<lparr>style := st\<rparr>\<rparr>)))
           = init_log (snd (CreateEvent Convert encode initialize nativeEvent w))"
proof -
  have V: "lazy_text Convert (value_field (this w))
             (map_option scalar_value (NativeEvent (this w))) = Some v"
    using assms(3) by (simp add: Value_text)
  have A: "lazy_text Convert (anchor (this w))
             (map_option scalar_anchor (NativeEvent (this w))) = a"
    using assms(1) by (simp add: Anchor_text)
  have T: "lazy_text Convert (tag (this w))
             (map_option scalar_tag (NativeEvent (this w))) = t"
    using assms(2) by (simp add: Tag_text)
  note run = CreateEvent_Some [OF V A [symmetric] T [symmetric] refl refl refl refl refl]
  have first: "\<exists>h args.
           init_log (snd (CreateEvent Convert encode initialize nativeEvent w))
             = init_log w @ [(h, args)]
         \<and> arg_event args = nativeEvent
         \<and> bytes_at h (arg_anchor args) = encode a
         \<and> (arg_anchor args = None) = (encode a = None)
         \<and> bytes_at h (arg_tag args) = encode t
         \<and> (arg_tag args = None) = (encode t = None)
         \<and> bytes_at h (arg_value args) = encode (Some v)
         \<and> (arg_value args = None) = (encode (Some v) = None)
         \<and> arg_length args = int (length v)
         \<and> arg_plain_implicit args = (if isPlainImplicit (this w) then 1 else 0)
         \<and> arg_quoted_implicit args = (if isQuotedImplicit (this w) then 1 else 0)
         \<and> arg_style args = YAML_ANY_SCALAR_STYLE"
    by (simp add: run bytes_at_new bytes_at_new2 bytes_at_new3 new_pointer_None)
  let ?w' = "w\<lparr>this := (this w)\<lparr>style := st\<rparr>\<rparr>"
  have V': "lazy_text Convert (value_field (this ?w'))
             (map_option scalar_value (NativeEvent (this ?w'))) = Some v"
    using V by simp
  have A': "a = lazy_text Convert (anchor (this ?w'))
             (map_option scalar_anchor (NativeEvent (this ?w')))"
    using A by simp
  have T': "t = lazy_text Convert (tag (this ?w'))
             (map_option scalar_tag (NativeEvent (this ?w')))"
    using T by simp
  note run' = CreateEvent_Some [OF V' A' T' refl refl refl refl refl]
  have second: "init_log (snd (CreateEvent Convert encode initialize nativeEvent ?w'))
           = init_log (snd (CreateEvent Convert encode initialize nativeEvent w))"
    by (simp add: run run')
  from first second show ?thesis by blast
qed


text \<open>The theorem at the detached event \<open>full_event\<close>, whose style is DoubleQuoted.\<close>

theorem CreateEvent_initialize_arguments_witness:
  "fst (Anchor_get StringConverter_decode (fresh full_event)) = Inr (Some ''a1'')
   \<and> fst (Tag_get StringConverter_decode (fresh full_event)) = Inr (Some ''!!str'')
   \<and> fst (Value_get StringConverter_decode (fresh full_event)) = Inr (Some ''x'')
   \<and> (\<exists>h args.
          init_log (snd (CreateEvent StringConverter_decode StringConverter_encode
                           initialize_ok 7 (fresh full_event))) = [(h, args)]
        \<and> arg_event args = 7
        \<and> bytes_at h (arg_anchor args) = Some [0x61, 0x31]
        \<and> bytes_at h (arg_tag args) = Some [0x21, 0x21, 0x73, 0x74, 0x72]
        \<and> bytes_at h (arg_value args) = Some [0x78]
        \<and> arg_length args = 1
        \<and> arg_plain_implicit args = 0
        \<and> arg_quoted_implicit args = 1
        \<and> arg_style args = YAML_ANY_SCALAR_STYLE)"
proof -
  have a: "fst (Anchor_get StringConverter_decode (fresh full_event)) = Inr (Some ''a1'')"
    by code_simp
  have t: "fst (Tag_get StringConverter_decode (fresh full_event)) = Inr (Some ''!!str'')"
    by code_simp
  have v: "fst (Value_get StringConverter_decode (fresh full_event)) = Inr (Some ''x'')"
    by code_simp
  have e: "StringConverter_encode (Some ''a1'') = Some [0x61, 0x31]"
    "StringConverter_encode (Some ''!!str'') = Some [0x21, 0x21, 0x73, 0x74, 0x72]"
    "StringConverter_encode (Some ''x'') = Some [0x78]"
    by (simp_all add: StringConverter_encode_def)
  have f: "init_log (fresh full_event) = []" "isPlainImplicit (this (fresh full_event)) = False"
    "isQuotedImplicit (this (fresh full_event)) = True"
    by (simp_all add: fresh_def full_event_def ScalarEvent_new6_def)
  from CreateEvent_initialize_arguments [OF a t v, of StringConverter_encode initialize_ok 7 Plain]
  have "\<exists>h args.
          init_log (snd (CreateEvent StringConverter_decode StringConverter_encode
                           initialize_ok 7 (fresh full_event))) = [(h, args)]
        \<and> arg_event args = 7
        \<and> bytes_at h (arg_anchor args) = Some [0x61, 0x31]
        \<and> bytes_at h (arg_tag args) = Some [0x21, 0x21, 0x73, 0x74, 0x72]
        \<and> bytes_at h (arg_value args) = Some [0x78]
        \<and> arg_length args = 1
        \<and> arg_plain_implicit args = 0
        \<and> arg_quoted_implicit args = 1
        \<and> arg_style args = YAML_ANY_SCALAR_STYLE"
    unfolding e f by auto
  with a t v show ?thesis by blast
qed

text \<open>
  C1 as stated fails on an event whose value is absent: the call ends with the null
  dereference of \<^verbatim>\<open>Value->Length\<close> and the primitive is not called at all.
\<close>

theorem CreateEvent_absent_value_makes_no_call:
  "init_log (snd (CreateEvent StringConverter_decode StringConverter_encode initialize_ok 7
                    (fresh (ScalarEvent_new1 None)))) = []
   \<and> fst (CreateEvent StringConverter_decode StringConverter_encode initialize_ok 7
            (fresh (ScalarEvent_new1 None))) = Inl NullReferenceException"
  by code_simp




subsection \<open>The unguarded dereference of the value\<close>

text \<open>
  C9: on a detached event \<^verbatim>\<open>Length\<close> and \<^verbatim>\<open>CreateEvent\<close> end with a null
  dereference exactly when the stored value is absent; when it is present, neither does,
  at once or after any calls on the object, and \<^verbatim>\<open>Length\<close> is the number of its
  characters every time.
\<close>

theorem detached_value_dereference:
  assumes "NativeEvent (this w) = None"
  shows "(fst (Length_get w) = Inl NullReferenceException) = (value_field (this w) = None)
       \<and> (fst (CreateEvent C E I ev w) = Inl NullReferenceException)
           = (value_field (this w) = None)
       \<and> (\<forall>v ms. value_field (this w) = Some v \<longrightarrow>
             fst (Length_get (history C E I ms w)) = Inr (int (length v))
           \<and> fst (CreateEvent C E I ev (history C E I ms w)) \<noteq> Inl NullReferenceException)"
proof -
  have L: "(fst (Length_get w) = Inl NullReferenceException) = (value_field (this w) = None)"
    using assms by (cases "value_field (this w)") (simp_all add: Length_get_def String_Length_def)
  have Cr: "(fst (CreateEvent C E I ev w') = Inl NullReferenceException)
             = (value_field (this w') = None)" if "NativeEvent (this w') = None" for w'
  proof (cases "value_field (this w')")
    case None
    then have "lazy_text C (value_field (this w'))
                 (map_option scalar_value (NativeEvent (this w'))) = None"
      using that by (simp add: lazy_text_detached)
    from CreateEvent_None [OF this refl refl] None show ?thesis
      by simp
  next
    case (Some v)
    then have "lazy_text C (value_field (this w'))
                 (map_option scalar_value (NativeEvent (this w'))) = Some v"
      by (simp add: lazy_text_Some)
    from CreateEvent_Some [OF this refl refl refl refl refl refl refl] Some show ?thesis
      by simp
  qed
  have H: "fst (Length_get (history C E I ms w)) = Inr (int (length v))
           \<and> fst (CreateEvent C E I ev (history C E I ms w)) \<noteq> Inl NullReferenceException"
    if v: "value_field (this w) = Some v" for v ms
  proof -
    have n: "NativeEvent (this (history C E I ms w)) = None"
      using assms by (simp add: history_NativeEvent)
    have f: "value_field (this (history C E I ms w)) = Some v"
      using v by (rule history_value_field)
    show ?thesis
      using Cr [OF n] n f by (simp add: Length_get_detached String_Length_def)
  qed
  from L Cr [OF assms] H show ?thesis
    by blast
qed

text \<open>
  The theorem at the detached event built from an absent value, and at \<open>full_event\<close>
  after three calls.
\<close>

theorem detached_value_dereference_witness:
  "NativeEvent (this (fresh (ScalarEvent_new1 None))) = None
   \<and> fst (Length_get (fresh (ScalarEvent_new1 None))) = Inl NullReferenceException
   \<and> fst (CreateEvent StringConverter_decode StringConverter_encode initialize_ok 7
            (fresh (ScalarEvent_new1 None))) = Inl NullReferenceException
   \<and> NativeEvent (this (fresh full_event)) = None
   \<and> value_field (this (fresh full_event)) = Some ''x''
   \<and> fst (Length_get (history StringConverter_decode StringConverter_encode initialize_ok
                         [Read_Length, Call_CreateEvent 7, Call_ToString] (fresh full_event)))
       = Inr 1
   \<and> fst (CreateEvent StringConverter_decode StringConverter_encode initialize_ok 7
            (history StringConverter_decode StringConverter_encode initialize_ok
               [Read_Length, Call_CreateEvent 7, Call_ToString] (fresh full_event)))
       \<noteq> Inl NullReferenceException"
proof -
  have n: "NativeEvent (this (fresh (ScalarEvent_new1 None))) = None"
    "value_field (this (fresh (ScalarEvent_new1 None))) = None"
    by (simp_all add: fresh_def ScalarEvent_new1_def)
  have d: "NativeEvent (this (fresh full_event)) = None"
    "value_field (this (fresh full_event)) = Some ''x''"
    by (simp_all add: fresh_def full_event_def ScalarEvent_new6_def)
  from detached_value_dereference
    [OF n(1), of StringConverter_decode StringConverter_encode initialize_ok 7] n(2)
  have 1: "fst (Length_get (fresh (ScalarEvent_new1 None))) = Inl NullReferenceException"
    and 2: "fst (CreateEvent StringConverter_decode StringConverter_encode initialize_ok 7
            (fresh (ScalarEvent_new1 None))) = Inl NullReferenceException"
    by blast+
  from detached_value_dereference
    [OF d(1), of StringConverter_decode StringConverter_encode initialize_ok 7] d(2)
  have 3: "fst (Length_get (history StringConverter_decode StringConverter_encode initialize_ok
                 [Read_Length, Call_CreateEvent 7, Call_ToString] (fresh full_event))) = Inr 1"
    and 4: "fst (CreateEvent StringConverter_decode StringConverter_encode initialize_ok 7
            (history StringConverter_decode StringConverter_encode initialize_ok
               [Read_Length, Call_CreateEvent 7, Call_ToString] (fresh full_event)))
       \<noteq> Inl NullReferenceException"
    by auto
  from n(1) 1 2 d 3 4 show ?thesis by blast
qed

subsection \<open>What the reads leave alone\<close>

text \<open>
  C10: reading Anchor, Tag or Value changes at most the cache field of that name, which
  afterwards holds the text returned; \<^verbatim>\<open>Length\<close> changes nothing; \<^verbatim>\<open>ToString\<close>
  changes at most the three cache fields; and \<open>style\<close>, \<open>isPlainImplicit\<close> and
  \<open>isQuotedImplicit\<close> are the same after any list of calls on the object.
\<close>

theorem reads_keep_style_and_flags:
  "this (snd (Anchor_get C w)) = (this w)\<lparr>anchor := anchor (this (snd (Anchor_get C w)))\<rparr>
   \<and> fst (Anchor_get C w) = Inr (anchor (this (snd (Anchor_get C w))))
   \<and> this (snd (Tag_get C w)) = (this w)\<lparr>tag := tag (this (snd (Tag_get C w)))\<rparr>
   \<and> fst (Tag_get C w) = Inr (tag (this (snd (Tag_get C w))))
   \<and> this (snd (Value_get C w))
       = (this w)\<lparr>value_field := value_field (this (snd (Value_get C w)))\<rparr>
   \<and> fst (Value_get C w) = Inr (value_field (this (snd (Value_get C w))))
   \<and> snd (Length_get w) = w
   \<and> this (snd (ToString C w))
       = (this w)\<lparr>anchor := anchor (this (snd (ToString C w))),
                  tag := tag (this (snd (ToString C w))),
                  value_field := value_field (this (snd (ToString C w)))\<rparr>
   \<and> style (this (history C E I ms w)) = style (this w)
   \<and> isPlainImplicit (this (history C E I ms w)) = isPlainImplicit (this w)
   \<and> isQuotedImplicit (this (history C E I ms w)) = isQuotedImplicit (this w)
   \<and> style (this (snd (ToString C w))) = style (this w)
   \<and> isPlainImplicit (this (snd (ToString C w))) = isPlainImplicit (this w)
   \<and> isQuotedImplicit (this (snd (ToString C w))) = isQuotedImplicit (this w)"
  by (simp add: Anchor_get_eq Tag_get_eq Value_get_eq Length_get_world ToString_world
      history_style history_isPlainImplicit history_isQuotedImplicit)

end
